theory Spec2Isabelle
  imports Main
begin

section \<open>JavaScript values as the facilitator receives them\<close>

text \<open>
  The request body is parsed JSON. A value is one of the six JSON kinds; an object is
  the list of its own properties in the order \<^verbatim>\<open>Object.keys\<close> enumerates them (keys
  distinct). A property that is absent reads as \<^verbatim>\<open>undefined\<close>, modelled as \<open>None\<close>.
  Numbers are integer valued; strings are lists of code units below 256.
\<close>

datatype json =
    JNull
  | JBool bool
  | JNum int
  | JStr string
  | JArr "json list"
  | JObj "(string \<times> json) list"

text \<open>JavaScript truthiness: what \<^verbatim>\<open>if (v)\<close>, \<^verbatim>\<open>!v\<close>, \<^verbatim>\<open>a && b\<close> and \<^verbatim>\<open>a || b\<close> test.\<close>

fun truthy :: "json \<Rightarrow> bool" where
  "truthy JNull = False"
| "truthy (JBool b) = b"
| "truthy (JNum n) = (n \<noteq> 0)"
| "truthy (JStr s) = (s \<noteq> [])"
| "truthy (JArr xs) = True"
| "truthy (JObj kvs) = True"

fun truthy_opt :: "json option \<Rightarrow> bool" where
  "truthy_opt None = False"
| "truthy_opt (Some v) = truthy v"

text \<open>
  A thrown JavaScript error, with its \<^verbatim>\<open>message\<close>. A \<^verbatim>\<open>TypeError\<close> is what the engine
  raises on a property read of \<^verbatim>\<open>null\<close>/\<^verbatim>\<open>undefined\<close> or a call of a non-function.
\<close>

datatype js_error = Error string | TypeError string

fun message :: "js_error \<Rightarrow> string" where
  "message (Error m) = m"
| "message (TypeError m) = m"

text \<open>
  \<^verbatim>\<open>v.k\<close> for the property names the facilitator reads (\<^verbatim>\<open>payload\<close>, \<^verbatim>\<open>network\<close>,
  \<^verbatim>\<open>signature\<close>, ...): none of them is a member of a built-in prototype, so only an
  object's own property can answer; on a string, number, boolean or array the read is
  \<^verbatim>\<open>undefined\<close>.
\<close>

fun property :: "json \<Rightarrow> string \<Rightarrow> json option" where
  "property (JObj kvs) k = map_of kvs k"
| "property v k = None"

text \<open>The same read where the receiver may be \<^verbatim>\<open>null\<close> or \<^verbatim>\<open>undefined\<close>: that throws.\<close>

fun get_prop :: "json option \<Rightarrow> string \<Rightarrow> js_error + json option" where
  "get_prop None k =
     Inl (TypeError (''Cannot read properties of undefined (reading '' @ [CHR 0x27] @ k @ [CHR 0x27] @ '')''))"
| "get_prop (Some JNull) k =
     Inl (TypeError (''Cannot read properties of null (reading '' @ [CHR 0x27] @ k @ [CHR 0x27] @ '')''))"
| "get_prop (Some v) k = Inr (property v k)"

text \<open>Optional chaining \<^verbatim>\<open>v?.k\<close>: \<^verbatim>\<open>undefined\<close> when the receiver is nullish.\<close>

fun opt_chain :: "json option \<Rightarrow> string \<Rightarrow> json option" where
  "opt_chain None k = None"
| "opt_chain (Some JNull) k = None"
| "opt_chain (Some v) k = property v k"

text \<open>\<^verbatim>\<open>a || b\<close> on possibly undefined values.\<close>

fun js_or :: "json option \<Rightarrow> json option \<Rightarrow> json option" where
  "js_or a b = (if truthy_opt a then a else b)"

text \<open>Decimal rendering of an array index, and \<^verbatim>\<open>Array.prototype.join\<close> on strings.\<close>

fun show_nat :: "nat \<Rightarrow> string" where
  "show_nat n =
     (if n < 10 then [char_of (48 + n)]
      else show_nat (n div 10) @ [char_of (48 + n mod 10)])"

fun join :: "string \<Rightarrow> string list \<Rightarrow> string" where
  "join sep [] = []"
| "join sep [x] = x"
| "join sep (x # y # ys) = x @ sep @ join sep (y # ys)"

text \<open>
  \<^verbatim>\<open>Object.keys(v)\<close> for a truthy value: the own keys of an object, the indices of a
  string or an array, nothing for a number or a boolean.
\<close>

fun object_keys :: "json \<Rightarrow> string list" where
  "object_keys (JObj kvs) = map fst kvs"
| "object_keys (JStr s) = map show_nat [0..<length s]"
| "object_keys (JArr xs) = map show_nat [0..<length xs]"
| "object_keys v = []"

section \<open>The payload normalizer: \<^verbatim>\<open>extractTransactionData\<close>\<close>

datatype format = facilitator_sponsored | minimal | full | authorization_only

text \<open>
  The object the normalizer returns: its \<^verbatim>\<open>format\<close> tag and the properties the branch
  copies; a property the branch does not set, or copies from an absent field, is
  \<^verbatim>\<open>undefined\<close>.
\<close>

record transaction_data =
  format :: format
  userSignature :: "json option"
  facilitatorTransaction :: "json option"
  userPublicKey :: "json option"
  signature :: "json option"
  transaction :: "json option"
  payer :: "json option"
  amount :: "json option"
  mint :: "json option"
  recipient :: "json option"
  blockhash :: "json option"
  memo :: "json option"

definition no_data :: "format \<Rightarrow> transaction_data" where
  "no_data f =
     \<lparr> format = f, userSignature = None, facilitatorTransaction = None, userPublicKey = None,
       signature = None, transaction = None, payer = None, amount = None, mint = None,
       recipient = None, blockhash = None, memo = None \<rparr>"

definition unrecognized :: "json \<Rightarrow> string" where
  "unrecognized payload =
     ''Unrecognized payload format. Available fields: '' @ join '', '' (object_keys payload) @
     ''. Expected: signature + transaction (+ optional payer, amount, etc.)''"

definition extractTransactionData :: "json option \<Rightarrow> js_error + transaction_data" where
  "extractTransactionData paymentPayload =
     (case get_prop paymentPayload ''payload'' of
        Inl e \<Rightarrow> Inl e
      | Inr pl \<Rightarrow>
          if \<not> truthy_opt pl then Inl (Error ''Missing payload in payment'')
          else
            let payload = the pl in
            if truthy_opt (property payload ''userSignature'') \<and>
               truthy_opt (property payload ''facilitatorTransaction'') \<and>
               truthy_opt (property payload ''userPublicKey'')
            then Inr ((no_data facilitator_sponsored)
                   \<lparr> userSignature := property payload ''userSignature'',
                     facilitatorTransaction := property payload ''facilitatorTransaction'',
                     userPublicKey := property payload ''userPublicKey'' \<rparr>)
            else if truthy_opt (property payload ''signature'') \<and>
                    truthy_opt (property payload ''transaction'') \<and>
                    \<not> truthy_opt (property payload ''payer'')
            then Inr ((no_data minimal)
                   \<lparr> signature := property payload ''signature'',
                     transaction := property payload ''transaction'' \<rparr>)
            else if truthy_opt (property payload ''signature'') \<and>
                    truthy_opt (property payload ''transaction'') \<and>
                    truthy_opt (property payload ''payer'')
            then Inr ((no_data full)
                   \<lparr> signature := property payload ''signature'',
                     transaction := property payload ''transaction'',
                     payer := property payload ''payer'',
                     amount := property payload ''amount'',
                     mint := property payload ''mint'',
                     recipient := property payload ''recipient'',
                     blockhash := property payload ''blockhash'',
                     memo := property payload ''memo'' \<rparr>)
            else if truthy_opt (property payload ''signature'') \<and>
                    truthy_opt (property payload ''authorization'') \<and>
                    \<not> truthy_opt (property payload ''transaction'')
            then Inr ((no_data authorization_only)
                   \<lparr> signature := property payload ''signature'',
                     payer := property (the (property payload ''authorization'')) ''from'',
                     recipient := property (the (property payload ''authorization'')) ''to'',
                     amount := property (the (property payload ''authorization'')) ''value'',
                     memo := property (the (property payload ''authorization'')) ''nonce'' \<rparr>)
            else Inl (Error (unrecognized payload)))"


section \<open>The classification the normalizer computes\<close>

text \<open>\<^verbatim>\<open>payload.k\<close> used as a condition: the field is there and its value is truthy.\<close>

definition has :: "json \<Rightarrow> string \<Rightarrow> bool" where
  "has payload k = truthy_opt (property payload k)"

definition sponsored_shape :: "json \<Rightarrow> bool" where
  "sponsored_shape payload =
     (has payload ''userSignature'' \<and> has payload ''facilitatorTransaction'' \<and>
      has payload ''userPublicKey'')"

definition minimal_shape :: "json \<Rightarrow> bool" where
  "minimal_shape payload =
     (has payload ''signature'' \<and> has payload ''transaction'' \<and> \<not> has payload ''payer'')"

definition full_shape :: "json \<Rightarrow> bool" where
  "full_shape payload =
     (has payload ''signature'' \<and> has payload ''transaction'' \<and> has payload ''payer'')"

definition authorization_shape :: "json \<Rightarrow> bool" where
  "authorization_shape payload =
     (has payload ''signature'' \<and> has payload ''authorization'' \<and> \<not> has payload ''transaction'')"

text \<open>
  The classification as the specification words it: by the presence of fields, a field
  being present when the document has the key, whatever its value.
\<close>

definition present :: "json \<Rightarrow> string \<Rightarrow> bool" where
  "present payload k = (property payload k \<noteq> None)"

definition spec_format :: "json \<Rightarrow> format option" where
  "spec_format payload =
     (if present payload ''userSignature'' \<and> present payload ''facilitatorTransaction'' \<and>
         present payload ''userPublicKey'' then Some facilitator_sponsored
      else if present payload ''signature'' \<and> present payload ''transaction'' \<and>
         \<not> present payload ''payer'' then Some minimal
      else if present payload ''signature'' \<and> present payload ''transaction'' \<and>
         present payload ''payer'' then Some full
      else if present payload ''signature'' \<and> present payload ''authorization'' \<and>
         \<not> present payload ''transaction'' then Some authorization_only
      else None)"

text \<open>The tag of a normalizer result, \<open>None\<close> when it threw.\<close>

fun format_of :: "js_error + transaction_data \<Rightarrow> format option" where
  "format_of (Inl e) = None"
| "format_of (Inr d) = Some (format d)"


section \<open>The ledger client and the process environment\<close>

text \<open>
  What the facilitator sees of \<^verbatim>\<open>@solana/web3.js\<close> and \<^verbatim>\<open>@solana/spl-token\<close>. A public key
  is its base58 text. An instruction has its account list (key, signer flag, writable
  flag), its program and its data: the data of a token transfer is the amount that its
  eight bytes, an unsigned 64-bit field, spell; any other data is opaque.
  A \<^verbatim>\<open>Transaction\<close> object has its instruction list, recent blockhash, fee payer and the
  list of signature slots (\<open>None\<close> is an unsigned slot).
\<close>

type_synonym pubkey = string

datatype ix_data = TransferData int | OtherData string

record instruction =
  keys :: "(pubkey \<times> bool \<times> bool) list"
  programId :: pubkey
  data :: ix_data

record Transaction =
  instructions :: "instruction list"
  recentBlockhash :: "string option"
  feePayer :: "pubkey option"
  signatures :: "(pubkey \<times> string option) list"

text \<open>
  Results of the RPC reads. An execution error (\<^verbatim>\<open>err\<close>) is kept as its
  \<^verbatim>\<open>JSON.stringify\<close> text, \<open>None\<close> when it is \<^verbatim>\<open>null\<close>. The numbers of a fetched
  transaction are naturals, \<open>None\<close> when \<^verbatim>\<open>null\<close> or \<^verbatim>\<open>undefined\<close>.
\<close>

record tx_meta =
  err :: "string option"
  fee :: "nat option"

record tx_info =
  slot :: "nat option"
  blockTime :: "nat option"
  meta :: "tx_meta option"

record sig_status =
  confirmationStatus :: "string option"
  status_err :: "string option"

text \<open>\<^verbatim>\<open>tx.meta?.err\<close> and \<^verbatim>\<open>tx.meta?.fee\<close> of a fetched transaction.\<close>

definition meta_err :: "tx_info \<Rightarrow> string option" where
  "meta_err t = (case meta t of None \<Rightarrow> None | Some m \<Rightarrow> err m)"

definition meta_fee :: "tx_info \<Rightarrow> nat option" where
  "meta_fee t = (case meta t of None \<Rightarrow> None | Some m \<Rightarrow> fee m)"

text \<open>
  The ledger is an unknown world \<open>'w\<close>. Each RPC method of a \<^verbatim>\<open>Connection\<close> takes the
  world, answers or throws (\<open>Inl\<close>), and leaves a world behind.
\<close>

record 'w connection =
  getLatestBlockhash :: "'w \<Rightarrow> (js_error + string) \<times> 'w"
  simulateTransaction :: "Transaction \<Rightarrow> 'w \<Rightarrow> (js_error + string option) \<times> 'w"
  getTransaction :: "json option \<Rightarrow> 'w \<Rightarrow> (js_error + tx_info option) \<times> 'w"
  sendRawTransaction :: "string \<Rightarrow> 'w \<Rightarrow> (js_error + string) \<times> 'w"
  getSignatureStatus :: "string \<Rightarrow> 'w \<Rightarrow> (js_error + sig_status option) \<times> 'w"

text \<open>
  The process: the facilitator key pair, the three connections of the registry, the
  library functions the handlers call (pure), the clock and the timer.
\<close>

record 'w env =
  facilitatorPublicKey :: pubkey
  facilitatorSign :: "Transaction \<Rightarrow> string"
  devnet :: "'w connection"
  mainnet :: "'w connection"
  testnet :: "'w connection"
  Transaction_from :: "json option \<Rightarrow> js_error + Transaction"
  serialize :: "bool \<Rightarrow> Transaction \<Rightarrow> js_error + string"
  new_PublicKey :: "json option \<Rightarrow> js_error + pubkey"
  getAssociatedTokenAddress :: "pubkey \<Rightarrow> pubkey \<Rightarrow> js_error + pubkey"
  to_BigInt :: "json option \<Rightarrow> js_error + int"
  TOKEN_PROGRAM_ID :: pubkey
  Date_now :: "'w \<Rightarrow> int"
  sleep :: "nat \<Rightarrow> 'w \<Rightarrow> 'w"

text \<open>
  The log of the calls a handler has made to the ledger and to the clock, in order. A
  broadcast, a status poll and a reading of the clock are logged with what they answered.
\<close>

datatype call =
    GetLatestBlockhash
  | SimulateTransaction Transaction
  | GetTransaction "json option"
  | SendRawTransaction string "js_error + string"
  | GetSignatureStatus string "js_error + sig_status option"
  | DateNow int

fun is_broadcast :: "call \<Rightarrow> bool" where
  "is_broadcast (SendRawTransaction raw r) = True"
| "is_broadcast c = False"

subsection \<open>The network registry: \<^verbatim>\<open>connections[network]\<close>\<close>

text \<open>
  The registry is an object literal with three own keys, so a lookup also finds the
  members it inherits from \<^verbatim>\<open>Object.prototype\<close>: truthy values with none of the client's
  methods.
\<close>

datatype 'w handle = Conn "'w connection" | Inherited

definition inherited_names :: "string list" where
  "inherited_names =
     [''constructor'', ''__proto__'', ''hasOwnProperty'', ''isPrototypeOf'',
      ''propertyIsEnumerable'', ''toLocaleString'', ''toString'', ''valueOf'',
      ''__defineGetter__'', ''__defineSetter__'', ''__lookupGetter__'', ''__lookupSetter__'']"

definition connections :: "'w env \<Rightarrow> string \<Rightarrow> 'w handle option" where
  "connections env k =
     (if k = ''solana-devnet'' then Some (Conn (devnet env))
      else if k = ''solana-mainnet'' then Some (Conn (mainnet env))
      else if k = ''solana-testnet'' then Some (Conn (testnet env))
      else if k \<in> set inherited_names then Some Inherited
      else None)"

text \<open>
  A key that is not a string is converted to one first (\<^verbatim>\<open>ToString\<close>). An object with an
  own \<^verbatim>\<open>toString\<close> property (never callable in parsed JSON) cannot be converted; an array
  joins its elements with commas, \<^verbatim>\<open>null\<close> elements as the empty string. Integers are
  rendered in decimal (magnitudes below \<open>10\<^sup>2\<^sup>1\<close>).
\<close>

fun show_int :: "int \<Rightarrow> string" where
  "show_int i = (if i < 0 then CHR ''-'' # show_nat (nat (- i)) else show_nat (nat i))"

fun to_string :: "json \<Rightarrow> js_error + string"
  and to_strings :: "json list \<Rightarrow> js_error + string list" where
  "to_string JNull = Inr ''null''"
| "to_string (JBool b) = Inr (if b then ''true'' else ''false'')"
| "to_string (JNum n) = Inr (show_int n)"
| "to_string (JStr s) = Inr s"
| "to_string (JArr xs) =
     (case to_strings xs of Inl e \<Rightarrow> Inl e | Inr ss \<Rightarrow> Inr (join '','' ss))"
| "to_string (JObj kvs) =
     (if ''toString'' \<in> set (map fst kvs)
      then Inl (TypeError ''Cannot convert object to primitive value'')
      else Inr ''[object Object]'')"
| "to_strings [] = Inr []"
| "to_strings (x # xs) =
     (case (case x of JNull \<Rightarrow> Inr [] | _ \<Rightarrow> to_string x) of
        Inl e \<Rightarrow> Inl e
      | Inr s \<Rightarrow> (case to_strings xs of Inl e \<Rightarrow> Inl e | Inr ss \<Rightarrow> Inr (s # ss)))"

fun to_key :: "json option \<Rightarrow> js_error + string" where
  "to_key None = Inr ''undefined''"
| "to_key (Some v) = to_string v"

definition lookup_connection :: "'w env \<Rightarrow> json option \<Rightarrow> js_error + 'w handle option" where
  "lookup_connection env network =
     (case to_key network of Inl e \<Rightarrow> Inl e | Inr k \<Rightarrow> Inr (connections env k))"

subsection \<open>Calling a method of the resolved connection\<close>

text \<open>
  A step of a handler takes the world and gives back its value, the world after it and
  the ledger calls it made, in order. On an inherited registry member the method is
  \<^verbatim>\<open>undefined\<close> and the call throws before anything reaches a ledger.
\<close>

type_synonym ('a, 'w) step = "'a \<times> 'w \<times> call list"

text \<open>The step \<open>x\<close> run after the calls \<open>cs\<close> were made.\<close>

fun after :: "call list \<Rightarrow> ('a, 'w) step \<Rightarrow> ('a, 'w) step" where
  "after cs (r, w, cs') = (r, w, cs @ cs')"

text \<open>
  \<open>yield r\<close> answers \<open>r\<close> without touching the world. \<open>await m f\<close> runs \<open>m\<close>, then \<open>f\<close> on
  its value: \<^verbatim>\<open>const r = await m; ...\<close>. \<open>clock\<close> is \<^verbatim>\<open>Date.now()\<close> and \<open>wait\<close> the
  timer \<^verbatim>\<open>await new Promise(resolve => setTimeout(resolve, ms))\<close>.
\<close>

definition yield :: "'a \<Rightarrow> 'w \<Rightarrow> ('a, 'w) step" where
  "yield r w = (r, w, [])"

definition await ::
  "('w \<Rightarrow> ('a, 'w) step) \<Rightarrow> ('a \<Rightarrow> 'w \<Rightarrow> ('b, 'w) step) \<Rightarrow> 'w \<Rightarrow> ('b, 'w) step" where
  "await m f w = (case m w of (r, w1, c1) \<Rightarrow> after c1 (f r w1))"

definition clock :: "'w env \<Rightarrow> 'w \<Rightarrow> (int, 'w) step" where
  "clock env w = (Date_now env w, w, [DateNow (Date_now env w)])"

definition wait :: "'w env \<Rightarrow> nat \<Rightarrow> 'w \<Rightarrow> (unit, 'w) step" where
  "wait env ms w = ((), sleep env ms w, [])"

definition not_a_function :: "string \<Rightarrow> js_error" where
  "not_a_function m = TypeError (''connection.'' @ m @ '' is not a function'')"


fun call_simulateTransaction ::
  "'w handle \<Rightarrow> Transaction \<Rightarrow> 'w \<Rightarrow> (js_error + string option, 'w) step" where
  "call_simulateTransaction Inherited tx w =
     (Inl (not_a_function ''simulateTransaction''), w, [])"
| "call_simulateTransaction (Conn c) tx w =
     (case simulateTransaction c tx w of (r, w') \<Rightarrow> (r, w', [SimulateTransaction tx]))"

fun call_getTransaction ::
  "'w handle \<Rightarrow> json option \<Rightarrow> 'w \<Rightarrow> (js_error + tx_info option, 'w) step" where
  "call_getTransaction Inherited sg w = (Inl (not_a_function ''getTransaction''), w, [])"
| "call_getTransaction (Conn c) sg w =
     (case getTransaction c sg w of (r, w') \<Rightarrow> (r, w', [GetTransaction sg]))"

fun call_sendRawTransaction ::
  "'w handle \<Rightarrow> string \<Rightarrow> 'w \<Rightarrow> (js_error + string, 'w) step" where
  "call_sendRawTransaction Inherited raw w =
     (Inl (not_a_function ''sendRawTransaction''), w, [])"
| "call_sendRawTransaction (Conn c) raw w =
     (case sendRawTransaction c raw w of (r, w') \<Rightarrow> (r, w', [SendRawTransaction raw r]))"

fun call_getSignatureStatus ::
  "'w handle \<Rightarrow> string \<Rightarrow> 'w \<Rightarrow> (js_error + sig_status option, 'w) step" where
  "call_getSignatureStatus Inherited sg w =
     (Inl (not_a_function ''getSignatureStatus''), w, [])"
| "call_getSignatureStatus (Conn c) sg w =
     (case getSignatureStatus c sg w of (r, w') \<Rightarrow> (r, w', [GetSignatureStatus sg r]))"

section \<open>The handlers\<close>

text \<open>
  What a handler does to its caller: one response with a status and a JSON body
  (\<^verbatim>\<open>res.json\<close> alone answers 200), or an error that leaves the handler uncaught.
\<close>

datatype 'b http = Reply nat 'b | Unhandled js_error

subsection \<open>\<^verbatim>\<open>POST /verify\<close>\<close>

text \<open>
  \<open>Valid p g\<close> is the body \<^verbatim>\<open>{isValid: true, invalidReason: null, payer: p,
  gasSponsoredByFacilitator: g}\<close>; \<open>Invalid r\<close> is \<^verbatim>\<open>{isValid: false, invalidReason: r}\<close>.
\<close>

datatype verify_body =
    Valid (verdict_payer: "json option") (gasSponsoredByFacilitator: bool)
  | Invalid (invalidReason: string)

text \<open>
  The payer a response reports:
  \<^verbatim>\<open>transactionData.payer || paymentPayload.payload?.authorization?.from || 'unknown'\<close>,
  or the facilitator's key for the sponsored format.
\<close>

definition reported_payer ::
  "'w env \<Rightarrow> transaction_data \<Rightarrow> json option \<Rightarrow> js_error + json option" where
  "reported_payer env d paymentPayload =
     (if format d = facilitator_sponsored then Inr (Some (JStr (facilitatorPublicKey env)))
      else if truthy_opt (payer d) then Inr (payer d)
      else
        (case get_prop paymentPayload ''payload'' of
           Inl e \<Rightarrow> Inl e
         | Inr pl \<Rightarrow>
             Inr (js_or (opt_chain (opt_chain pl ''authorization'') ''from'')
                    (Some (JStr ''unknown'')))))"

text \<open>The two ways the inner \<^verbatim>\<open>try\<close> answers; neither calls the ledger.\<close>

definition accept ::
  "'w env \<Rightarrow> transaction_data \<Rightarrow> json option \<Rightarrow> 'w \<Rightarrow>
     (js_error + verify_body http, 'w) step" where
  "accept env d paymentPayload =
     (case reported_payer env d paymentPayload of
        Inl e \<Rightarrow> yield (Inl e)
      | Inr p \<Rightarrow> yield (Inr (Reply 200 (Valid p (format d = facilitator_sponsored)))))"

definition refuse :: "string \<Rightarrow> 'w \<Rightarrow> (js_error + verify_body http, 'w) step" where
  "refuse reason = yield (Inr (Reply 400 (Invalid reason)))"

text \<open>The body of the inner \<^verbatim>\<open>try\<close>: \<open>Inl\<close> is an error thrown to the inner \<^verbatim>\<open>catch\<close>.\<close>

definition verify_format ::
  "'w env \<Rightarrow> 'w handle \<Rightarrow> json option \<Rightarrow> transaction_data \<Rightarrow> 'w \<Rightarrow>
     (js_error + verify_body http, 'w) step" where
  "verify_format env connection paymentPayload d =
     (if format d = facilitator_sponsored then
        (case Transaction_from env (facilitatorTransaction d) of
           Inl e \<Rightarrow> yield (Inl e)
         | Inr tx \<Rightarrow>
             (case feePayer tx of
                None \<Rightarrow>
                  yield (Inl (TypeError (''Cannot read properties of undefined (reading '' @
                                 [CHR 0x27] @ ''equals'' @ [CHR 0x27] @ '')'')))
              | Some fp \<Rightarrow>
                  if fp \<noteq> facilitatorPublicKey env
                  then refuse ''Transaction fee payer is not the facilitator''
                  else
                    await (call_simulateTransaction connection tx)
                      (\<lambda>simulation. case simulation of
                         Inl e \<Rightarrow> yield (Inl e)
                       | Inr (Some er) \<Rightarrow> refuse (''Transaction simulation failed: '' @ er)
                       | Inr None \<Rightarrow> accept env d paymentPayload)))
      else if format d = authorization_only then
        await (call_getTransaction connection (signature d))
          (\<lambda>looked. case looked of
             Inl e \<Rightarrow> refuse ''Unable to verify transaction on blockchain''
           | Inr None \<Rightarrow>
               refuse
                 ''Transaction not found on blockchain - payment may not have been submitted yet''
           | Inr (Some existingTx) \<Rightarrow>
               (case meta_err existingTx of
                  Some er \<Rightarrow> refuse (''Transaction failed on blockchain: '' @ er)
                | None \<Rightarrow> accept env d paymentPayload))
      else if \<not> truthy_opt (transaction d) then
        refuse ''Missing transaction data for full verification''
      else
        (case Transaction_from env (transaction d) of
           Inl e \<Rightarrow> yield (Inl e)
         | Inr tx \<Rightarrow>
             await (call_simulateTransaction connection tx)
               (\<lambda>simulation. case simulation of
                  Inl e \<Rightarrow> yield (Inl e)
                | Inr (Some er) \<Rightarrow> refuse (''Transaction simulation failed: '' @ er)
                | Inr None \<Rightarrow>
                    await (call_getTransaction connection (signature d))
                      (\<lambda>looked. case looked of
                         Inl e \<Rightarrow> accept env d paymentPayload
                       | Inr (Some existingTx) \<Rightarrow>
                           refuse ''Transaction already executed on blockchain''
                       | Inr None \<Rightarrow> accept env d paymentPayload))))"

text \<open>
  The body of the outer \<^verbatim>\<open>try\<close>. \<^verbatim>\<open>network.startsWith\<close> exists on strings only: calling
  it on any other truthy value throws.
\<close>

definition verify_checked ::
  "'w env \<Rightarrow> json option \<Rightarrow> json option \<Rightarrow> 'w \<Rightarrow>
     (js_error + verify_body http, 'w) step" where
  "verify_checked env paymentPayload paymentRequirements =
     (if \<not> truthy_opt paymentPayload \<or> \<not> truthy_opt paymentRequirements
      then refuse ''Missing paymentPayload or paymentRequirements''
      else
        (case get_prop paymentPayload ''network'' of
           Inl e \<Rightarrow> yield (Inl e)
         | Inr network \<Rightarrow>
             if \<not> truthy_opt network
             then refuse ''Unsupported network - only Solana networks supported''
             else
               (case network of
                  Some (JStr nw) \<Rightarrow>
                    if take 7 nw \<noteq> ''solana-''
                    then refuse ''Unsupported network - only Solana networks supported''
                    else
                      (case connections env nw of
                         None \<Rightarrow> refuse (''Unsupported network: '' @ nw)
                       | Some connection \<Rightarrow>
                           (case extractTransactionData paymentPayload of
                              Inl extractError \<Rightarrow>
                                refuse (''Invalid payload format: '' @ message extractError)
                            | Inr d \<Rightarrow>
                                await (verify_format env connection paymentPayload d)
                                  (\<lambda>r. case r of
                                     Inl validationError \<Rightarrow>
                                       refuse (''Transaction validation failed: '' @
                                               message validationError)
                                   | Inr response \<Rightarrow> yield (Inr response))))
                | _ \<Rightarrow> yield (Inl (TypeError ''network.startsWith is not a function'')))))"

definition verify :: "'w env \<Rightarrow> json \<Rightarrow> 'w \<Rightarrow> (verify_body http, 'w) step" where
  "verify env body =
     await (verify_checked env (property body ''paymentPayload'')
              (property body ''paymentRequirements''))
       (\<lambda>r. case r of
          Inl error \<Rightarrow>
            yield (Reply 400 (Invalid (''Verification failed: '' @ message error)))
        | Inr response \<Rightarrow> yield response)"

subsection \<open>The settlement helper: \<^verbatim>\<open>settleSolanaTransaction\<close>\<close>

text \<open>
  The object the helper returns. The signature is the string the broadcast answered; the
  \<^verbatim>\<open>/settle\<close> handler builds the same object from the payload's claimed signature.
\<close>

record receipt =
  receipt_signature :: "json option"
  confirmed :: bool
  receipt_status :: string
  receipt_slot :: "nat option"
  receipt_blockTime :: "nat option"
  fees :: "nat option"

text \<open>\<^verbatim>\<open>status.value.confirmationStatus || 'processed'\<close>\<close>

fun or_processed :: "string option \<Rightarrow> string" where
  "or_processed None = ''processed''"
| "or_processed (Some c) = (if c = [] then ''processed'' else c)"

definition terminal :: "string \<Rightarrow> bool" where
  "terminal c = (c = ''confirmed'' \<or> c = ''finalized'')"

text \<open>
  What the loop does once a terminal status without error is seen: it sets
  \<^verbatim>\<open>confirmed\<close>, fetches the transaction for slot, block time and fee (a failing fetch
  is logged and leaves them \<^verbatim>\<open>null\<close>) and breaks.
\<close>

definition confirmed_receipt ::
  "'w handle \<Rightarrow> string \<Rightarrow> string \<Rightarrow> 'w \<Rightarrow> (receipt option, 'w) step" where
  "confirmed_receipt connection sg cs =
     await (call_getTransaction connection (Some (JStr sg)))
       (\<lambda>fetched. case fetched of
          Inl detailError \<Rightarrow>
            yield (Some \<lparr> receipt_signature = Some (JStr sg), confirmed = True,
                          receipt_status = cs, receipt_slot = None,
                          receipt_blockTime = None, fees = None \<rparr>)
        | Inr txInfo \<Rightarrow>
            yield (Some \<lparr> receipt_signature = Some (JStr sg), confirmed = True,
                          receipt_status = cs,
                          receipt_slot = (case txInfo of None \<Rightarrow> None | Some t \<Rightarrow> slot t),
                          receipt_blockTime =
                            (case txInfo of None \<Rightarrow> None | Some t \<Rightarrow> blockTime t),
                          fees = (case txInfo of None \<Rightarrow> None | Some t \<Rightarrow> meta_fee t)
                        \<rparr>))"

text \<open>
  The polling loop. Each round reads the clock, and while the bound has not elapsed asks
  for the signature's status. An answer without a value, or with a status that is not
  terminal, is followed by the two-second wait. An answer carrying an execution error
  throws inside the loop's own \<^verbatim>\<open>try\<close>, as a failing status call does: the \<^verbatim>\<open>catch\<close> logs
  it and the loop goes on at once. The loop ends when the clock passes the bound, so the
  number of rounds is not bounded by the code: the first argument is the number of
  rounds allowed, and \<open>None\<close> says they ran out.
\<close>

fun confirmation_loop ::
  "nat \<Rightarrow> 'w env \<Rightarrow> 'w handle \<Rightarrow> string \<Rightarrow> int \<Rightarrow> int \<Rightarrow> string \<Rightarrow> 'w \<Rightarrow>
     (receipt option, 'w) step" where
  "confirmation_loop 0 env connection sg startTime timeout cs w = (None, w, [])"
| "confirmation_loop (Suc n) env connection sg startTime timeout cs w =
     await (clock env)
       (\<lambda>now.
          if \<not> (now - startTime < timeout)
          then yield (Some \<lparr> receipt_signature = Some (JStr sg), confirmed = False,
                             receipt_status = cs, receipt_slot = None,
                             receipt_blockTime = None, fees = None \<rparr>)
          else
            await (call_getSignatureStatus connection sg)
              (\<lambda>status. case status of
                 Inl statusError \<Rightarrow>
                   (\<lambda>w1. confirmation_loop n env connection sg startTime timeout cs w1)
               | Inr None \<Rightarrow>
                   await (wait env 2000)
                     (\<lambda>u w1. confirmation_loop n env connection sg startTime timeout cs w1)
               | Inr (Some st) \<Rightarrow>
                   if status_err st \<noteq> None
                   then (\<lambda>w1. confirmation_loop n env connection sg startTime timeout
                                (or_processed (confirmationStatus st)) w1)
                   else if terminal (or_processed (confirmationStatus st))
                   then confirmed_receipt connection sg (or_processed (confirmationStatus st))
                   else
                     await (wait env 2000)
                       (\<lambda>u w1. confirmation_loop n env connection sg startTime timeout
                                  (or_processed (confirmationStatus st)) w1)))
       w"

text \<open>
  Decode, log the fee payer (a transaction without one throws there), serialize with all
  signatures required, broadcast, read the clock, then poll from \<^verbatim>\<open>'processed'\<close>. The
  options \<^verbatim>\<open>skipPreflight\<close> and \<^verbatim>\<open>maxRetries\<close> go to the broadcast unchanged; only the
  timeout is a parameter here.
\<close>

definition settleSolanaTransaction ::
  "nat \<Rightarrow> 'w env \<Rightarrow> 'w handle \<Rightarrow> json option \<Rightarrow> int \<Rightarrow> 'w \<Rightarrow>
     ((js_error + receipt) option, 'w) step" where
  "settleSolanaTransaction rounds env connection transactionBase64 timeout =
     (case Transaction_from env transactionBase64 of
        Inl e \<Rightarrow> yield (Some (Inl e))
      | Inr tx \<Rightarrow>
          (case feePayer tx of
             None \<Rightarrow>
               yield (Some (Inl (TypeError (''Cannot read properties of undefined (reading '' @
                                   [CHR 0x27] @ ''toBase58'' @ [CHR 0x27] @ '')''))))
           | Some fp \<Rightarrow>
               (case serialize env True tx of
                  Inl e \<Rightarrow> yield (Some (Inl e))
                | Inr raw \<Rightarrow>
                    await (call_sendRawTransaction connection raw)
                      (\<lambda>sent. case sent of
                         Inl e \<Rightarrow> yield (Some (Inl e))
                       | Inr sg \<Rightarrow>
                           await (clock env)
                             (\<lambda>startTime.
                                await (confirmation_loop rounds env connection sg startTime
                                         timeout ''processed'')
                                  (\<lambda>r. yield (map_option Inr r)))))))"

subsection \<open>\<^verbatim>\<open>POST /settle\<close>\<close>

text \<open>
  The success body \<^verbatim>\<open>{success: true, errorReason: null, transaction, network, payer,
  confirmationStatus, slot, blockTime, fees, gasSponsoredByFacilitator, userPaidGas}\<close>, and
  the failure body \<^verbatim>\<open>{success: false, errorReason, transaction: null, network,
  payer: null}\<close>: \<open>SettleFailed\<close> has the two fields that vary.
\<close>

record settlement =
  settled_transaction :: "json option"
  settled_network :: "json option"
  settled_payer :: "json option"
  settled_status :: string
  settled_slot :: "nat option"
  settled_blockTime :: "nat option"
  settled_fees :: "nat option"
  settled_gasSponsoredByFacilitator :: bool
  userPaidGas :: bool

datatype settle_body =
    Settled settlement
  | SettleFailed (errorReason: string) (failed_network: "json option")

text \<open>The \<^verbatim>\<open>transaction\<close> field of a response body.\<close>

fun body_transaction :: "settle_body \<Rightarrow> json option" where
  "body_transaction (Settled st) = settled_transaction st"
| "body_transaction (SettleFailed reason network) = Some JNull"

definition settled ::
  "'w env \<Rightarrow> transaction_data \<Rightarrow> json option \<Rightarrow> json option \<Rightarrow> receipt \<Rightarrow>
     js_error + settlement" where
  "settled env d paymentPayload network result =
     (case reported_payer env d paymentPayload of
        Inl e \<Rightarrow> Inl e
      | Inr p \<Rightarrow>
          Inr \<lparr> settled_transaction = receipt_signature result,
                settled_network = network,
                settled_payer = p,
                settled_status = receipt_status result,
                settled_slot = receipt_slot result,
                settled_blockTime = receipt_blockTime result,
                settled_fees = fees result,
                settled_gasSponsoredByFacilitator = (format d = facilitator_sponsored),
                userPaidGas = (format d \<noteq> facilitator_sponsored) \<rparr>)"

text \<open>
  The two broadcasting branches differ in the encoded transaction they hand to the helper
  and in the first words of the timeout error. \<open>None\<close> is a helper that ran out of rounds.
\<close>

definition broadcast_and_confirm ::
  "nat \<Rightarrow> 'w env \<Rightarrow> 'w handle \<Rightarrow> json option \<Rightarrow> string \<Rightarrow> 'w \<Rightarrow>
     ((js_error + receipt) option, 'w) step" where
  "broadcast_and_confirm rounds env connection encoded what =
     await (settleSolanaTransaction rounds env connection encoded 30000)
       (\<lambda>r. case r of
          None \<Rightarrow> yield None
        | Some (Inl e) \<Rightarrow> yield (Some (Inl e))
        | Some (Inr result) \<Rightarrow>
            if \<not> confirmed result
            then yield (Some (Inl (Error (what @ '' not confirmed within timeout. Status: '' @
                                          receipt_status result))))
            else yield (Some (Inr result)))"

text \<open>
  The authorization-only branch: its own \<^verbatim>\<open>try\<close> rethrows whatever it catches behind
  \<^verbatim>\<open>'Failed to verify existing transaction: '\<close>.
\<close>

definition confirm_existing ::
  "'w handle \<Rightarrow> json option \<Rightarrow> 'w \<Rightarrow> ((js_error + receipt) option, 'w) step" where
  "confirm_existing connection sg =
     await (call_getTransaction connection sg)
       (\<lambda>looked. case looked of
          Inl e \<Rightarrow>
            yield (Some (Inl (Error (''Failed to verify existing transaction: '' @ message e))))
        | Inr None \<Rightarrow>
            yield (Some (Inl (Error (''Failed to verify existing transaction: '' @
                                     ''Transaction not found on blockchain''))))
        | Inr (Some existingTx) \<Rightarrow>
            (case meta_err existingTx of
               Some er \<Rightarrow>
                 yield (Some (Inl (Error (''Failed to verify existing transaction: '' @
                                          ''Transaction failed: '' @ er))))
             | None \<Rightarrow>
                 yield (Some (Inr \<lparr> receipt_signature = sg, confirmed = True,
                                     receipt_status = ''confirmed'',
                                     receipt_slot = slot existingTx,
                                     receipt_blockTime = blockTime existingTx,
                                     fees = meta_fee existingTx \<rparr>))))"

text \<open>The body of the \<^verbatim>\<open>try\<close>: \<open>Inl\<close> is an error thrown to the handler's \<^verbatim>\<open>catch\<close>.\<close>

definition settle_try ::
  "nat \<Rightarrow> 'w env \<Rightarrow> json option \<Rightarrow> 'w \<Rightarrow> ((js_error + settlement) option, 'w) step" where
  "settle_try rounds env paymentPayload =
     (case get_prop paymentPayload ''network'' of
        Inl e \<Rightarrow> yield (Some (Inl e))
      | Inr network \<Rightarrow>
          (case lookup_connection env network of
             Inl e \<Rightarrow> yield (Some (Inl e))
           | Inr None \<Rightarrow>
               yield (Some (Inl (Error ''Invalid settlement request: unsupported network'')))
           | Inr (Some connection) \<Rightarrow>
               (case extractTransactionData paymentPayload of
                  Inl extractError \<Rightarrow>
                    yield (Some (Inl (Error (''Invalid payload format: '' @
                                             message extractError))))
                | Inr d \<Rightarrow>
                    await
                      (if format d = facilitator_sponsored then
                         broadcast_and_confirm rounds env connection (facilitatorTransaction d)
                           ''Facilitator-sponsored transaction''
                       else if format d = authorization_only then
                         confirm_existing connection (signature d)
                       else if \<not> truthy_opt (transaction d) then
                         yield (Some (Inl (Error ''Missing transaction data for settlement'')))
                       else
                         broadcast_and_confirm rounds env connection (transaction d)
                           ''Transaction'')
                      (\<lambda>r. case r of
                         None \<Rightarrow> yield None
                       | Some (Inl e) \<Rightarrow> yield (Some (Inl e))
                       | Some (Inr result) \<Rightarrow>
                           yield (Some (settled env d paymentPayload network result))))))"

text \<open>
  The handler. Its \<^verbatim>\<open>catch\<close> builds the failure body from \<^verbatim>\<open>error.message\<close> and
  \<^verbatim>\<open>paymentPayload.network\<close>; that read is outside any \<^verbatim>\<open>try\<close>.
\<close>

definition settle ::
  "nat \<Rightarrow> 'w env \<Rightarrow> json \<Rightarrow> 'w \<Rightarrow> (settle_body http option, 'w) step" where
  "settle rounds env body =
     await (settle_try rounds env (property body ''paymentPayload''))
       (\<lambda>r. case r of
          None \<Rightarrow> yield None
        | Some (Inr ok) \<Rightarrow> yield (Some (Reply 200 (Settled ok)))
        | Some (Inl error) \<Rightarrow>
            (case get_prop (property body ''paymentPayload'') ''network'' of
               Inl e \<Rightarrow> yield (Some (Unhandled e))
             | Inr network \<Rightarrow>
                 yield (Some (Reply 400
                   (SettleFailed (''Settlement failed: '' @ message error) network)))))"

subsection \<open>The sponsored transaction builder: \<^verbatim>\<open>createFacilitatorPaidTransaction\<close>\<close>












subsection \<open>\<^verbatim>\<open>POST /create-sponsored-transaction\<close>\<close>




section \<open>A test ledger\<close>

text \<open>
  A small concrete process for running the handlers: the world is the clock in
  milliseconds; a connection answers every simulation, lookup and status poll with a
  fixed value, a broadcast answers the signature \<open>SIG1\<close>; reads take no time, a broadcast
  50 ms and a status poll 10 s. Two encoded transactions decode: \<open>dHg=\<close> to one whose fee
  payer is the facilitator \<open>FAC\<close>, \<open>dXNlcg==\<close> to one whose fee payer is \<open>USER\<close>.
\<close>

definition test_connection ::
  "(js_error + string option) \<Rightarrow> (js_error + tx_info option) \<Rightarrow>
   (js_error + sig_status option) \<Rightarrow> int connection" where
  "test_connection sim look status =
     \<lparr> getLatestBlockhash = (\<lambda>w. (Inr ''blockhash1'', w + 50)),
       simulateTransaction = (\<lambda>tx w. (sim, w)),
       getTransaction = (\<lambda>sg w. (look, w)),
       sendRawTransaction = (\<lambda>raw w. (Inr ''SIG1'', w + 50)),
       getSignatureStatus = (\<lambda>sg w. (status, w + 10000)) \<rparr>"

definition test_tx :: "pubkey \<Rightarrow> Transaction" where
  "test_tx fp =
     \<lparr> instructions = [\<lparr> keys = [], programId = ''TokenProgram'',
                           data = OtherData ''transfer'' \<rparr>],
       recentBlockhash = Some ''blockhash0'',
       feePayer = Some fp, signatures = [(fp, Some ''signed'')] \<rparr>"

definition test_decode :: "json option \<Rightarrow> js_error + Transaction" where
  "test_decode v =
     (case v of
        Some (JStr s) \<Rightarrow>
          if s = ''dHg='' then Inr (test_tx ''FAC'')
          else if s = ''dXNlcg=='' then Inr (test_tx ''USER'')
          else Inl (Error ''Reached end of buffer unexpectedly'')
      | _ \<Rightarrow> Inl (TypeError ''The first argument must be of type string''))"

definition test_key :: "json option \<Rightarrow> js_error + pubkey" where
  "test_key v =
     (case v of
        Some (JStr s) \<Rightarrow> if s = [] then Inl (Error ''Invalid public key input'') else Inr s
      | _ \<Rightarrow> Inl (Error ''Invalid public key input''))"

definition test_bigint :: "json option \<Rightarrow> js_error + int" where
  "test_bigint v =
     (case v of
        Some (JNum n) \<Rightarrow> Inr n
      | _ \<Rightarrow> Inl (Error ''Cannot convert to a BigInt''))"

definition test_env :: "int connection \<Rightarrow> int env" where
  "test_env c =
     \<lparr> facilitatorPublicKey = ''FAC'',
       facilitatorSign = (\<lambda>tx. ''signed by FAC''),
       devnet = c, mainnet = c, testnet = c,
       Transaction_from = test_decode,
       serialize = (\<lambda>requireAllSignatures tx. Inr ''raw''),
       new_PublicKey = test_key,
       getAssociatedTokenAddress = (\<lambda>mint owner. Inr (''ata/'' @ mint @ ''/'' @ owner)),
       to_BigInt = test_bigint,
       TOKEN_PROGRAM_ID = ''TokenProgram'',
       Date_now = (\<lambda>w. w),
       sleep = (\<lambda>ms w. w + int ms) \<rparr>"

text \<open>Request bodies: a payment payload for the devnet with the given inner document.\<close>

definition test_body :: "json \<Rightarrow> json" where
  "test_body payload =
     JObj [(''paymentPayload'',
              JObj [(''network'', JStr ''solana-devnet''), (''payload'', payload)]),
           (''paymentRequirements'',
              JObj [(''network'', JStr ''solana-devnet''), (''asset'', JStr ''MINT'')])]"

text \<open>A minimal payload, what the normalizer makes of it, and a transaction found on the ledger.\<close>

definition minimal_payload :: json where
  "minimal_payload = JObj [(''signature'', JStr ''S1''), (''transaction'', JStr ''dHg='')]"

definition minimal_data :: transaction_data where
  "minimal_data =
     (no_data minimal) \<lparr> signature := Some (JStr ''S1''), transaction := Some (JStr ''dHg='') \<rparr>"

definition found_tx :: tx_info where
  "found_tx = \<lparr> slot = Some 7, blockTime = Some 1700000000,
                 meta = Some \<lparr> err = None, fee = Some 5000 \<rparr> \<rparr>"

text \<open>An authorization-only payload and what the normalizer makes of it.\<close>

definition authorization_payload :: json where
  "authorization_payload =
     JObj [(''signature'', JStr ''S1''),
           (''authorization'',
              JObj [(''from'', JStr ''PAYER''), (''to'', JStr ''SHOP''),
                    (''value'', JStr ''10000''), (''nonce'', JStr ''n1'')])]"

definition authorization_data :: transaction_data where
  "authorization_data =
     (no_data authorization_only)
       \<lparr> signature := Some (JStr ''S1''), payer := Some (JStr ''PAYER''),
         recipient := Some (JStr ''SHOP''), amount := Some (JStr ''10000''),
         memo := Some (JStr ''n1'') \<rparr>"

text \<open>
  Status answers: still processed; confirmed but failed on chain; finalized. And the
  receipts and connections the runs below are about.
\<close>

definition processed_status :: sig_status where
  "processed_status = \<lparr> confirmationStatus = Some ''processed'', status_err = None \<rparr>"

definition failed_status :: sig_status where
  "failed_status =
     \<lparr> confirmationStatus = Some ''confirmed'', status_err = Some ''InstructionError'' \<rparr>"

definition finalized_status :: sig_status where
  "finalized_status = \<lparr> confirmationStatus = Some ''finalized'', status_err = None \<rparr>"

definition stuck_connection :: "int connection" where
  "stuck_connection = test_connection (Inr None) (Inr None) (Inr (Some processed_status))"

definition failing_connection :: "int connection" where
  "failing_connection = test_connection (Inr None) (Inr None) (Inr (Some failed_status))"

definition landing_connection :: "int connection" where
  "landing_connection =
     test_connection (Inr None) (Inr (Some found_tx)) (Inr (Some finalized_status))"

text \<open>The same ledger behind a slow line: a status poll takes 34 s to answer.\<close>

definition slow_connection :: "int connection" where
  "slow_connection =
     landing_connection
       \<lparr> getSignatureStatus := (\<lambda>sg w. (Inr (Some finalized_status), w + 34000)) \<rparr>"

section \<open>Notions the properties are stated with\<close>

text \<open>The value, the world and the calls of a finished step.\<close>

fun value_of :: "('a, 'w) step \<Rightarrow> 'a" where
  "value_of (r, w, cs) = r"

fun world_of :: "('a, 'w) step \<Rightarrow> 'w" where
  "world_of (r, w, cs) = w"

fun calls_of :: "('a, 'w) step \<Rightarrow> call list" where
  "calls_of (r, w, cs) = cs"

text \<open>The two calls that only read the ledger: a simulation and a lookup by signature.\<close>

fun simulation_or_lookup :: "call \<Rightarrow> bool" where
  "simulation_or_lookup (SimulateTransaction tx) = True"
| "simulation_or_lookup (GetTransaction sg) = True"
| "simulation_or_lookup c = False"

text \<open>
  A ledger on which simulations and lookups are reads: they leave the world as it was.
  This is the ledger's contract, not the facilitator's; it says that nobody else changes
  the ledger while a handler runs.
\<close>

definition quiet :: "'w connection \<Rightarrow> bool" where
  "quiet c = ((\<forall>tx w. snd (simulateTransaction c tx w) = w) \<and>
              (\<forall>sg w. snd (getTransaction c sg w) = w))"

definition read_only_ledger :: "'w env \<Rightarrow> bool" where
  "read_only_ledger env = (quiet (devnet env) \<and> quiet (mainnet env) \<and> quiet (testnet env))"

fun quiet_handle :: "'w handle \<Rightarrow> bool" where
  "quiet_handle Inherited = True"
| "quiet_handle (Conn c) = quiet c"

text \<open>Every call an action makes satisfies \<open>P\<close>; an action leaves the world as it was.\<close>

definition makes :: "(call \<Rightarrow> bool) \<Rightarrow> ('w \<Rightarrow> ('a, 'w) step) \<Rightarrow> bool" where
  "makes P m = (\<forall>w. list_all P (calls_of (m w)))"

definition keeps :: "('w \<Rightarrow> ('a, 'w) step) \<Rightarrow> bool" where
  "keeps m = (\<forall>w. world_of (m w) = w)"

text \<open>
  What the log says about the polling. The answers of the status polls, in order; an
  answer that confirms (a value without execution error whose status is confirmed or
  finalized); the status the loop holds after an answer; every poll issued right after a
  reading of the clock that was within the bound; a log that ends with a reading of the
  clock past the bound.
\<close>

fun polled :: "call list \<Rightarrow> (js_error + sig_status option) list" where
  "polled [] = []"
| "polled (GetSignatureStatus sg r # cs) = r # polled cs"
| "polled (c # cs) = polled cs"

fun confirming :: "js_error + sig_status option \<Rightarrow> bool" where
  "confirming (Inr (Some st)) =
     (status_err st = None \<and> terminal (or_processed (confirmationStatus st)))"
| "confirming r = False"

fun observe :: "string \<Rightarrow> js_error + sig_status option \<Rightarrow> string" where
  "observe cs (Inr (Some st)) = or_processed (confirmationStatus st)"
| "observe cs r = cs"

fun polls_in_time :: "int \<Rightarrow> int \<Rightarrow> call list \<Rightarrow> bool" where
  "polls_in_time start timeout [] = True"
| "polls_in_time start timeout (DateNow now # GetSignatureStatus sg r # cs) =
     (now - start < timeout \<and> polls_in_time start timeout cs)"
| "polls_in_time start timeout (GetSignatureStatus sg r # cs) = False"
| "polls_in_time start timeout (c # cs) = polls_in_time start timeout cs"

fun timed_out :: "int \<Rightarrow> int \<Rightarrow> call list \<Rightarrow> bool" where
  "timed_out start timeout [] = False"
| "timed_out start timeout [DateNow now] = (\<not> (now - start < timeout))"
| "timed_out start timeout [c] = False"
| "timed_out start timeout (c # cs) = timed_out start timeout cs"

text \<open>
  An answer whose status is confirmed or finalized, whatever else it says, and an answer
  that reports an execution error.
\<close>

fun answers_terminal :: "js_error + sig_status option \<Rightarrow> bool" where
  "answers_terminal (Inr (Some st)) = terminal (or_processed (confirmationStatus st))"
| "answers_terminal r = False"

fun reports_error :: "js_error + sig_status option \<Rightarrow> bool" where
  "reports_error (Inr (Some st)) = (status_err st \<noteq> None)"
| "reports_error r = False"

text \<open>
  The claim's own wording of the time limit: a status is observed before the bound
  elapses when the clock, read in the world in which the answer of the poll is in hand,
  is still within the bound.
\<close>

definition observed_in_time :: "'w env \<Rightarrow> int \<Rightarrow> int \<Rightarrow> 'w \<Rightarrow> bool" where
  "observed_in_time env start timeout answered =
     (Date_now env answered - start < timeout)"

text \<open>
  A clock that moves: a status poll takes at least a millisecond, and neither the timer
  nor a lookup turns the clock back.
\<close>

definition ticking :: "'w env \<Rightarrow> 'w connection \<Rightarrow> bool" where
  "ticking env c =
     ((\<forall>sg w. Date_now env w < Date_now env (snd (getSignatureStatus c sg w))) \<and>
      (\<forall>ms w. Date_now env w \<le> Date_now env (sleep env ms w)))"

text \<open>
  The receipt of a loop that ran past the bound, and what holds of a receipt and the log
  of the loop that returned it.
\<close>

definition timed_out_receipt :: "string \<Rightarrow> string \<Rightarrow> receipt" where
  "timed_out_receipt sg cs =
     \<lparr> receipt_signature = Some (JStr sg), confirmed = False, receipt_status = cs,
       receipt_slot = None, receipt_blockTime = None, fees = None \<rparr>"

definition loop_post :: "string \<Rightarrow> int \<Rightarrow> int \<Rightarrow> string \<Rightarrow> receipt \<Rightarrow> call list \<Rightarrow> bool" where
  "loop_post sg start timeout cs0 r calls =
     ((\<exists>now rest. calls = DateNow now # rest) \<and>
      receipt_signature r = Some (JStr sg) \<and>
      confirmed r = list_ex confirming (polled calls) \<and>
      receipt_status r = foldl observe cs0 (polled calls) \<and>
      polls_in_time start timeout calls \<and>
      (confirmed r \<longrightarrow> terminal (receipt_status r)) \<and>
      (\<not> confirmed r \<longrightarrow> timed_out start timeout calls))"

text \<open>
  The reason \<^verbatim>\<open>/verify\<close> gives for a sponsored payload whose decoded transaction does not
  have the facilitator as fee payer, by the first check that fails: the requirements,
  the network name, the registry, the fee payer (absent, or another key).
\<close>

definition mismatch_reason :: "bool \<Rightarrow> json option \<Rightarrow> (string \<Rightarrow> bool) \<Rightarrow> pubkey option \<Rightarrow> string" where
  "mismatch_reason requirements network registered fp =
     (if \<not> requirements then ''Missing paymentPayload or paymentRequirements''
      else if \<not> truthy_opt network then ''Unsupported network - only Solana networks supported''
      else
        (case network of
           Some (JStr nw) \<Rightarrow>
             if take 7 nw \<noteq> ''solana-''
             then ''Unsupported network - only Solana networks supported''
             else if \<not> registered nw then ''Unsupported network: '' @ nw
             else
               (case fp of
                  None \<Rightarrow>
                    ''Transaction validation failed: '' @
                    ''Cannot read properties of undefined (reading '' @
                      [CHR 0x27] @ ''equals'' @ [CHR 0x27] @ '')''
                | Some k \<Rightarrow> ''Transaction fee payer is not the facilitator'')
         | _ \<Rightarrow> ''Verification failed: network.startsWith is not a function''))"

text \<open>
  For the formats \<^verbatim>\<open>/settle\<close> broadcasts: the encoded transaction it hands to the helper
  and the first words of its timeout error.
\<close>

definition encoded_transaction :: "transaction_data \<Rightarrow> json option" where
  "encoded_transaction d =
     (if format d = facilitator_sponsored then facilitatorTransaction d else transaction d)"

definition timeout_subject :: "transaction_data \<Rightarrow> string" where
  "timeout_subject d =
     (if format d = facilitator_sponsored then ''Facilitator-sponsored transaction''
      else ''Transaction'')"

text \<open>A sponsored payload whose transaction has the facilitator as fee payer.\<close>

definition sponsored_payload :: json where
  "sponsored_payload =
     JObj [(''userSignature'', JStr ''sig''), (''facilitatorTransaction'', JStr ''dHg=''),
           (''userPublicKey'', JStr ''USER'')]"

definition sponsored_data :: transaction_data where
  "sponsored_data =
     (no_data facilitator_sponsored)
       \<lparr> userSignature := Some (JStr ''sig''),
         facilitatorTransaction := Some (JStr ''dHg=''),
         userPublicKey := Some (JStr ''USER'') \<rparr>"






section \<open>Reasoning about steps\<close>

lemma makes_yield [simp]: "makes P (yield r)"
  by (simp add: makes_def yield_def)

lemma keeps_yield [simp]: "keeps (yield r)"
  by (simp add: keeps_def yield_def)

lemma calls_of_after [simp]: "calls_of (after cs x) = cs @ calls_of x"
  by (cases x) simp

lemma world_of_after [simp]: "world_of (after cs x) = world_of x"
  by (cases x) simp

lemma value_of_after [simp]: "value_of (after cs x) = value_of x"
  by (cases x) simp

lemma makes_await: "makes P m \<Longrightarrow> (\<And>r. makes P (f r)) \<Longrightarrow> makes P (await m f)"
proof -
  assume m: "makes P m" and f: "\<And>r. makes P (f r)"
  show ?thesis
    unfolding makes_def
  proof
    fix w
    obtain r w1 c1 where mw: "m w = (r, w1, c1)" by (cases "m w")
    from m have "list_all P (calls_of (m w))" by (simp add: makes_def)
    with mw have "list_all P c1" by simp
    moreover from f have "list_all P (calls_of (f r w1))" by (simp add: makes_def)
    ultimately show "list_all P (calls_of (await m f w))"
      by (simp add: await_def mw)
  qed
qed

lemma keeps_await: "keeps m \<Longrightarrow> (\<And>r. keeps (f r)) \<Longrightarrow> keeps (await m f)"
proof -
  assume m: "keeps m" and f: "\<And>r. keeps (f r)"
  show ?thesis
    unfolding keeps_def
  proof
    fix w
    obtain r w1 c1 where mw: "m w = (r, w1, c1)" by (cases "m w")
    from m have "world_of (m w) = w" by (simp add: keeps_def)
    with mw have "w1 = w" by simp
    moreover from f have "world_of (f r w1) = w1" by (simp add: keeps_def)
    ultimately show "world_of (await m f w) = w"
      by (simp add: await_def mw)
  qed
qed

lemma makes_simulate: "makes simulation_or_lookup (call_simulateTransaction h tx)"
  by (cases h) (simp_all add: makes_def split: prod.split)

lemma makes_get: "makes simulation_or_lookup (call_getTransaction h sg)"
  by (cases h) (simp_all add: makes_def split: prod.split)

lemma keeps_simulate: "quiet_handle h \<Longrightarrow> keeps (call_simulateTransaction h tx)"
proof (cases h)
  case (Conn c)
  assume "quiet_handle h"
  with Conn have q: "\<And>w. snd (simulateTransaction c tx w) = w" by (simp add: quiet_def)
  show ?thesis
    unfolding keeps_def Conn
  proof
    fix w
    from q[of w] show "world_of (call_simulateTransaction (Conn c) tx w) = w"
      by (cases "simulateTransaction c tx w") simp
  qed
next
  case Inherited
  then show ?thesis by (simp add: keeps_def)
qed

lemma keeps_get: "quiet_handle h \<Longrightarrow> keeps (call_getTransaction h sg)"
proof (cases h)
  case (Conn c)
  assume "quiet_handle h"
  with Conn have q: "\<And>w. snd (getTransaction c sg w) = w" by (simp add: quiet_def)
  show ?thesis
    unfolding keeps_def Conn
  proof
    fix w
    from q[of w] show "world_of (call_getTransaction (Conn c) sg w) = w"
      by (cases "getTransaction c sg w") simp
  qed
next
  case Inherited
  then show ?thesis by (simp add: keeps_def)
qed

lemma makes_refuse [simp]: "makes P (refuse reason)"
  by (simp add: refuse_def)

lemma keeps_refuse [simp]: "keeps (refuse reason)"
  by (simp add: refuse_def)

lemma makes_accept [simp]: "makes P (accept env d pp)"
  by (simp add: accept_def split: sum.split)

lemma keeps_accept [simp]: "keeps (accept env d pp)"
  by (simp add: accept_def split: sum.split)

lemma makes_verify_format: "makes simulation_or_lookup (verify_format env h pp d)"
  unfolding verify_format_def
  by (auto intro!: makes_await makes_simulate makes_get split: sum.split option.split)

lemma keeps_verify_format: "quiet_handle h \<Longrightarrow> keeps (verify_format env h pp d)"
  unfolding verify_format_def
  by (auto intro!: keeps_await keeps_simulate keeps_get split: sum.split option.split)

lemma makes_verify: "makes simulation_or_lookup (verify env body)"
  unfolding verify_def verify_checked_def
  by (auto intro!: makes_await makes_verify_format split: sum.split option.split json.split)

lemma connections_quiet:
  "read_only_ledger env \<Longrightarrow> connections env nw = Some h \<Longrightarrow> quiet_handle h"
  by (auto simp: connections_def read_only_ledger_def split: if_splits)

lemma keeps_verify: "read_only_ledger env \<Longrightarrow> keeps (verify env body)"
  unfolding verify_def verify_checked_def
  by (auto intro!: keeps_await keeps_verify_format connections_quiet split: sum.split option.split json.split)

lemma await_yield [simp]: "await (yield r) f = f r"
proof
  fix w
  show "await (yield r) f w = f r w"
    by (cases "f r w") (simp add: await_def yield_def)
qed

lemma await_refuse [simp]: "await (refuse reason) f = f (Inr (Reply 400 (Invalid reason)))"
  by (simp add: refuse_def)

lemma await_simulate:
  "simulateTransaction c tx w = (r, w1) \<Longrightarrow>
   await (call_simulateTransaction (Conn c) tx) f w = after [SimulateTransaction tx] (f r w1)"
  by (simp add: await_def)

lemma await_getTransaction:
  "getTransaction c sg w = (r, w1) \<Longrightarrow>
   await (call_getTransaction (Conn c) sg) f w = after [GetTransaction sg] (f r w1)"
  by (simp add: await_def)

lemma after_yield [simp]: "after cs (yield r w) = (r, w, cs)"
  by (simp add: yield_def)

lemma after_after [simp]: "after cs (after cs' x) = after (cs @ cs') x"
  by (cases x) simp

lemma await_after: "await (\<lambda>w. after cs (m w)) f w = after cs (await m f w)"
  by (cases "m w") (simp add: await_def)

lemma await_assoc: "await (await m f) g = await m (\<lambda>r. await (f r) g)"
proof
  fix w
  obtain r w1 c1 where mw: "m w = (r, w1, c1)" by (cases "m w")
  obtain r2 w2 c2 where fw: "f r w1 = (r2, w2, c2)" by (cases "f r w1")
  obtain r3 w3 c3 where gw: "g r2 w2 = (r3, w3, c3)" by (cases "g r2 w2")
  show "await (await m f) g w = await m (\<lambda>r. await (f r) g) w"
    by (simp add: await_def mw fw gw)
qed

lemma await_cong_result: "(\<And>r. f r = g r) \<Longrightarrow> await m f = await m g"
proof -
  assume "\<And>r. f r = g r"
  then have "f = g" by (rule ext)
  then show ?thesis by simp
qed

section \<open>Properties of the payload normalizer\<close>

lemma get_payload:
  "property pp ''payload'' = Some payload \<Longrightarrow>
   get_prop (Some pp) ''payload'' = Inr (Some payload)"
  by (cases pp) simp_all

lemma extract_sponsored:
  assumes "property pp ''payload'' = Some payload" and "truthy payload"
    and "sponsored_shape payload"
  shows "extractTransactionData (Some pp) =
           Inr ((no_data facilitator_sponsored)
                  \<lparr> userSignature := property payload ''userSignature'',
                    facilitatorTransaction := property payload ''facilitatorTransaction'',
                    userPublicKey := property payload ''userPublicKey'' \<rparr>)"
  using assms(2,3)
  by (simp add: extractTransactionData_def get_payload[OF assms(1)] sponsored_shape_def has_def)

lemma extract_minimal:
  assumes "property pp ''payload'' = Some payload" and "truthy payload"
    and "\<not> sponsored_shape payload" and "minimal_shape payload"
  shows "extractTransactionData (Some pp) =
           Inr ((no_data minimal)
                  \<lparr> signature := property payload ''signature'',
                    transaction := property payload ''transaction'' \<rparr>)"
  using assms(2,3,4)
  by (auto simp: extractTransactionData_def get_payload[OF assms(1)] sponsored_shape_def
      minimal_shape_def has_def)

lemma extract_full:
  assumes "property pp ''payload'' = Some payload" and "truthy payload"
    and "\<not> sponsored_shape payload" and "full_shape payload"
  shows "extractTransactionData (Some pp) =
           Inr ((no_data full)
                  \<lparr> signature := property payload ''signature'',
                    transaction := property payload ''transaction'',
                    payer := property payload ''payer'',
                    amount := property payload ''amount'',
                    mint := property payload ''mint'',
                    recipient := property payload ''recipient'',
                    blockhash := property payload ''blockhash'',
                    memo := property payload ''memo'' \<rparr>)"
  using assms(2,3,4)
  by (auto simp: extractTransactionData_def get_payload[OF assms(1)] sponsored_shape_def
      minimal_shape_def full_shape_def has_def)

lemma extract_authorization:
  assumes "property pp ''payload'' = Some payload" and "truthy payload"
    and "\<not> sponsored_shape payload" and "authorization_shape payload"
  shows "extractTransactionData (Some pp) =
           Inr ((no_data authorization_only)
                  \<lparr> signature := property payload ''signature'',
                    payer := property (the (property payload ''authorization'')) ''from'',
                    recipient := property (the (property payload ''authorization'')) ''to'',
                    amount := property (the (property payload ''authorization'')) ''value'',
                    memo := property (the (property payload ''authorization'')) ''nonce'' \<rparr>)"
  using assms(2,3,4)
  by (auto simp: extractTransactionData_def get_payload[OF assms(1)] sponsored_shape_def
      authorization_shape_def has_def)

lemma extract_unrecognized:
  assumes "property pp ''payload'' = Some payload" and "truthy payload"
    and "\<not> sponsored_shape payload" and "\<not> minimal_shape payload"
    and "\<not> full_shape payload" and "\<not> authorization_shape payload"
  shows "extractTransactionData (Some pp) = Inl (Error (unrecognized payload))"
  using assms(2-)
  by (auto simp: extractTransactionData_def get_payload[OF assms(1)] sponsored_shape_def
      minimal_shape_def full_shape_def authorization_shape_def has_def)

lemma shapes_exclusive:
  "\<not> (minimal_shape payload \<and> full_shape payload)"
  "\<not> (minimal_shape payload \<and> authorization_shape payload)"
  "\<not> (full_shape payload \<and> authorization_shape payload)"
  by (auto simp: minimal_shape_def full_shape_def authorization_shape_def)

lemma format_no_data [simp]: "format (no_data f) = f"
  by (simp add: no_data_def)

text \<open>
  Claim C1, as the code has it. For a payment payload whose inner document is truthy, the
  normalizer tags it by the truthiness of the fields its conditions read (a field that is
  absent, \<^verbatim>\<open>null\<close>, \<^verbatim>\<open>false\<close>, \<^verbatim>\<open>0\<close> or the empty string does not count), in the
  order sponsored, minimal, full, authorization-only, the first match winning; each tag is
  returned exactly for its own case, and a document that matches no shape throws the
  format error whose message lists the keys of the document, joined by commas.
\<close>

theorem extractTransactionData_classifies:
  assumes "property pp ''payload'' = Some payload" and "truthy payload"
  shows "(format_of (extractTransactionData (Some pp)) = Some facilitator_sponsored)
           = sponsored_shape payload
       \<and> (format_of (extractTransactionData (Some pp)) = Some minimal)
           = (\<not> sponsored_shape payload \<and> minimal_shape payload)
       \<and> (format_of (extractTransactionData (Some pp)) = Some full)
           = (\<not> sponsored_shape payload \<and> full_shape payload)
       \<and> (format_of (extractTransactionData (Some pp)) = Some authorization_only)
           = (\<not> sponsored_shape payload \<and> authorization_shape payload)
       \<and> (extractTransactionData (Some pp) =
            Inl (Error (''Unrecognized payload format. Available fields: '' @
                        join '', '' (object_keys payload) @
                        ''. Expected: signature + transaction (+ optional payer, amount, etc.)'')))
           = (\<not> sponsored_shape payload \<and> \<not> minimal_shape payload \<and>
              \<not> full_shape payload \<and> \<not> authorization_shape payload)"
proof (cases "sponsored_shape payload")
  case True
  from extract_sponsored[OF assms True] show ?thesis
    using True by simp
next
  case ns: False
  show ?thesis
  proof (cases "minimal_shape payload")
    case True
    from extract_minimal[OF assms ns True] shapes_exclusive[of payload] show ?thesis
      using ns True by auto
  next
    case nm: False
    show ?thesis
    proof (cases "full_shape payload")
      case True
      from extract_full[OF assms ns True] shapes_exclusive[of payload] show ?thesis
        using ns nm True by auto
    next
      case nf: False
      show ?thesis
      proof (cases "authorization_shape payload")
        case True
        from extract_authorization[OF assms ns True] show ?thesis
          using ns nm nf True by simp
      next
        case False
        from extract_unrecognized[OF assms ns nm nf False] show ?thesis
          using ns nm nf False by (simp add: unrecognized_def)
      qed
    qed
  qed
qed

theorem extractTransactionData_classifies_witness:
  "format_of (extractTransactionData (Some (JObj [(''network'', JStr ''solana-devnet''),
      (''payload'', JObj [(''signature'', JStr ''S1''), (''transaction'', JStr ''dHg='')])])))
     = Some minimal"
  using extractTransactionData_classifies
    [of "JObj [(''network'', JStr ''solana-devnet''),
          (''payload'', JObj [(''signature'', JStr ''S1''), (''transaction'', JStr ''dHg='')])]"
        "JObj [(''signature'', JStr ''S1''), (''transaction'', JStr ''dHg='')]"]
  by (simp add: sponsored_shape_def minimal_shape_def has_def)

text \<open>
  The claim as worded, by the presence of fields, fails: a document with the keys
  \<^verbatim>\<open>signature\<close> and \<^verbatim>\<open>transaction\<close> and no \<^verbatim>\<open>payer\<close> has the minimal shape by presence,
  but with an empty signature the normalizer matches no shape and throws the format
  error, whose message lists both keys.
\<close>

theorem extractTransactionData_presence_counterexample:
  "spec_format (JObj [(''signature'', JStr ''''), (''transaction'', JStr ''dHg='')])
     = Some minimal
   \<and> extractTransactionData
       (Some (JObj [(''payload'',
                JObj [(''signature'', JStr ''''), (''transaction'', JStr ''dHg='')])]))
     = Inl (Error ''Unrecognized payload format. Available fields: signature, transaction. Expected: signature + transaction (+ optional payer, amount, etc.)'')"
  by (simp add: spec_format_def present_def extractTransactionData_def unrecognized_def)

section \<open>Properties of verification\<close>

lemma extract_Inr_object:
  "extractTransactionData pp = Inr d \<Longrightarrow> \<exists>kvs. pp = Some (JObj kvs)"
proof (cases pp)
  case None
  assume "extractTransactionData pp = Inr d"
  with None show ?thesis by (simp add: extractTransactionData_def)
next
  case (Some v)
  assume "extractTransactionData pp = Inr d"
  with Some show ?thesis
    by (cases v) (simp_all add: extractTransactionData_def)
qed

lemma verify_gates:
  assumes "property body ''paymentPayload'' = Some pp"
    and "truthy_opt (property body ''paymentRequirements'')"
    and "property pp ''network'' = Some (JStr nw)" and "take 7 nw = ''solana-''"
    and "connections env nw = Some h"
    and "extractTransactionData (Some pp) = Inr d"
  shows "verify env body =
           await (verify_format env h (Some pp) d)
             (\<lambda>r. case r of
                Inl validationError \<Rightarrow>
                  yield (Reply 400 (Invalid (''Transaction validation failed: '' @
                                            message validationError)))
              | Inr response \<Rightarrow> yield response)"
proof -
  from assms(6) obtain kvs where pp: "pp = JObj kvs"
    using extract_Inr_object by blast
  from assms(3,4) have nw: "nw \<noteq> []" by auto
  show ?thesis
    using assms nw
    apply (simp add: verify_def verify_checked_def pp await_assoc)
    apply (rule await_cong_result)
    subgoal for r
      by (cases r) simp_all
    done
qed

lemma extract_cases:
  assumes "extractTransactionData pp = Inr d"
  obtains pp' payload where "pp = Some pp'" "property pp' ''payload'' = Some payload"
    "truthy payload"
proof -
  from assms obtain kvs where pp: "pp = Some (JObj kvs)"
    using extract_Inr_object by blast
  show ?thesis
  proof (cases "map_of kvs ''payload''")
    case None
    with assms pp show ?thesis by (simp add: extractTransactionData_def)
  next
    case (Some payload)
    show ?thesis
    proof (cases "truthy payload")
      case True
      with Some pp that show ?thesis by simp
    next
      case False
      with assms pp Some show ?thesis by (simp add: extractTransactionData_def)
    qed
  qed
qed

lemma extract_format:
  assumes "property pp ''payload'' = Some payload" and "truthy payload"
  shows "format_of (extractTransactionData (Some pp)) =
           (if sponsored_shape payload then Some facilitator_sponsored
            else if minimal_shape payload then Some minimal
            else if full_shape payload then Some full
            else if authorization_shape payload then Some authorization_only
            else None)"
proof (cases "sponsored_shape payload")
  case True
  from extract_sponsored[OF assms True] True show ?thesis by simp
next
  case ns: False
  show ?thesis
  proof (cases "minimal_shape payload")
    case True
    from extract_minimal[OF assms ns True] ns True show ?thesis by simp
  next
    case nm: False
    show ?thesis
    proof (cases "full_shape payload")
      case True
      from extract_full[OF assms ns True] ns nm True show ?thesis by simp
    next
      case nf: False
      show ?thesis
      proof (cases "authorization_shape payload")
        case True
        from extract_authorization[OF assms ns True] ns nm nf True show ?thesis by simp
      next
        case False
        from extract_unrecognized[OF assms ns nm nf False] ns nm nf False show ?thesis
          by simp
      qed
    qed
  qed
qed

lemma extract_transaction_truthy:
  assumes "extractTransactionData pp = Inr d" and "format d = minimal \<or> format d = full"
  shows "truthy_opt (transaction d)"
proof -
  from assms(1) obtain pp' payload where pp: "pp = Some pp'"
    and pl: "property pp' ''payload'' = Some payload" and tr: "truthy payload"
    by (rule extract_cases)
  from extract_format[OF pl tr] assms pp
  have shape: "\<not> sponsored_shape payload" "minimal_shape payload \<or> full_shape payload"
    by (auto split: if_splits)
  from shape(2) show ?thesis
  proof
    assume m: "minimal_shape payload"
    from extract_minimal[OF pl tr shape(1) m] assms(1) pp m show ?thesis
      by (auto simp: minimal_shape_def has_def)
  next
    assume f: "full_shape payload"
    from extract_full[OF pl tr shape(1) f] assms(1) pp f show ?thesis
      by (auto simp: full_shape_def has_def)
  qed
qed

lemma verify_format_full_minimal:
  assumes "format d = minimal \<or> format d = full" and "truthy_opt (transaction d)"
  shows "verify_format env (Conn c) pp d =
     (case Transaction_from env (transaction d) of
        Inl e \<Rightarrow> yield (Inl e)
      | Inr tx \<Rightarrow>
          await (call_simulateTransaction (Conn c) tx)
            (\<lambda>simulation. case simulation of
               Inl e \<Rightarrow> yield (Inl e)
             | Inr (Some er) \<Rightarrow> refuse (''Transaction simulation failed: '' @ er)
             | Inr None \<Rightarrow>
                 await (call_getTransaction (Conn c) (signature d))
                   (\<lambda>looked. case looked of
                      Inl e \<Rightarrow> accept env d pp
                    | Inr (Some existingTx) \<Rightarrow>
                        refuse ''Transaction already executed on blockchain''
                    | Inr None \<Rightarrow> accept env d pp)))"
  using assms by (auto simp: verify_format_def)

lemma accept_unsponsored:
  assumes "extractTransactionData (Some pp) = Inr d" and "format d \<noteq> facilitator_sponsored"
  shows "accept env d (Some pp) w =
           (Inr (Reply 200 (Valid (js_or (payer d)
                  (js_or (opt_chain (opt_chain (property pp ''payload'') ''authorization'') ''from'')
                     (Some (JStr ''unknown'')))) False)), w, [])"
proof -
  from assms(1) obtain kvs where "pp = JObj kvs"
    using extract_Inr_object by blast
  with assms(2) show ?thesis
    by (simp add: accept_def reported_payer_def yield_def)
qed

lemma verify_full_minimal_run:
  assumes "property body ''paymentPayload'' = Some pp"
    and "truthy_opt (property body ''paymentRequirements'')"
    and "property pp ''network'' = Some (JStr nw)" and "take 7 nw = ''solana-''"
    and "connections env nw = Some (Conn c)"
    and "extractTransactionData (Some pp) = Inr d"
    and "format d = minimal \<or> format d = full"
  shows "Transaction_from env (transaction d) = Inl e \<Longrightarrow>
           verify env body w =
             (Reply 400 (Invalid (''Transaction validation failed: '' @ message e)), w, [])"
    and "Transaction_from env (transaction d) = Inr tx \<Longrightarrow>
         simulateTransaction c tx w = (Inl e, w1) \<Longrightarrow>
           verify env body w =
             (Reply 400 (Invalid (''Transaction validation failed: '' @ message e)), w1,
              [SimulateTransaction tx])"
    and "Transaction_from env (transaction d) = Inr tx \<Longrightarrow>
         simulateTransaction c tx w = (Inr (Some er), w1) \<Longrightarrow>
           verify env body w =
             (Reply 400 (Invalid (''Transaction simulation failed: '' @ er)), w1,
              [SimulateTransaction tx])"
    and "Transaction_from env (transaction d) = Inr tx \<Longrightarrow>
         simulateTransaction c tx w = (Inr None, w1) \<Longrightarrow>
         getTransaction c (signature d) w1 = (Inr (Some existingTx), w2) \<Longrightarrow>
           verify env body w =
             (Reply 400 (Invalid ''Transaction already executed on blockchain''), w2,
              [SimulateTransaction tx, GetTransaction (signature d)])"
    and "Transaction_from env (transaction d) = Inr tx \<Longrightarrow>
         simulateTransaction c tx w = (Inr None, w1) \<Longrightarrow>
         getTransaction c (signature d) w1 = (looked, w2) \<Longrightarrow>
         looked = Inr None \<or> looked = Inl e \<Longrightarrow>
           verify env body w =
             (Reply 200 (Valid (js_or (payer d)
                  (js_or (opt_chain (opt_chain (property pp ''payload'') ''authorization'') ''from'')
                     (Some (JStr ''unknown'')))) False), w2,
              [SimulateTransaction tx, GetTransaction (signature d)])"
proof -
  note tr = extract_transaction_truthy[OF assms(6,7)]
  note vf = verify_format_full_minimal[OF assms(7) tr, of env c "Some pp"]
  note vg = verify_gates[OF assms(1-6)]
  from assms(7) have ns: "format d \<noteq> facilitator_sponsored" by auto
  note acc = accept_unsponsored[OF assms(6) ns]
  show "Transaction_from env (transaction d) = Inl e \<Longrightarrow>
           verify env body w =
             (Reply 400 (Invalid (''Transaction validation failed: '' @ message e)), w, [])"
    by (simp add: vg vf yield_def)
  show "Transaction_from env (transaction d) = Inr tx \<Longrightarrow>
         simulateTransaction c tx w = (Inl e, w1) \<Longrightarrow>
           verify env body w =
             (Reply 400 (Invalid (''Transaction validation failed: '' @ message e)), w1,
              [SimulateTransaction tx])"
    by (simp add: vg vf await_assoc await_simulate)
  show "Transaction_from env (transaction d) = Inr tx \<Longrightarrow>
         simulateTransaction c tx w = (Inr (Some er), w1) \<Longrightarrow>
           verify env body w =
             (Reply 400 (Invalid (''Transaction simulation failed: '' @ er)), w1,
              [SimulateTransaction tx])"
    by (simp add: vg vf await_assoc await_simulate)
  show "Transaction_from env (transaction d) = Inr tx \<Longrightarrow>
         simulateTransaction c tx w = (Inr None, w1) \<Longrightarrow>
         getTransaction c (signature d) w1 = (Inr (Some existingTx), w2) \<Longrightarrow>
           verify env body w =
             (Reply 400 (Invalid ''Transaction already executed on blockchain''), w2,
              [SimulateTransaction tx, GetTransaction (signature d)])"
    by (simp add: vg vf await_assoc await_simulate await_getTransaction)
  show "Transaction_from env (transaction d) = Inr tx \<Longrightarrow>
         simulateTransaction c tx w = (Inr None, w1) \<Longrightarrow>
         getTransaction c (signature d) w1 = (looked, w2) \<Longrightarrow>
         looked = Inr None \<or> looked = Inl e \<Longrightarrow>
           verify env body w =
             (Reply 200 (Valid (js_or (payer d)
                  (js_or (opt_chain (opt_chain (property pp ''payload'') ''authorization'') ''from'')
                     (Some (JStr ''unknown'')))) False), w2,
              [SimulateTransaction tx, GetTransaction (signature d)])"
    by (auto simp add: vg vf await_assoc await_simulate await_getTransaction await_def acc)
qed

lemma verify_format_mismatch:
  assumes "format d = facilitator_sponsored"
    and "Transaction_from env (facilitatorTransaction d) = Inr tx"
    and "feePayer tx \<noteq> Some (facilitatorPublicKey env)"
  shows "verify_format env h pp d =
           (case feePayer tx of
              None \<Rightarrow>
                yield (Inl (TypeError (''Cannot read properties of undefined (reading '' @
                               [CHR 0x27] @ ''equals'' @ [CHR 0x27] @ '')'')))
            | Some fp \<Rightarrow> refuse ''Transaction fee payer is not the facilitator'')"
  using assms by (simp add: verify_format_def split: option.split)

lemma verify_mismatch_formula:
  assumes "extractTransactionData (property body ''paymentPayload'') = Inr d"
    and "format d = facilitator_sponsored"
    and "Transaction_from env (facilitatorTransaction d) = Inr tx"
    and "feePayer tx \<noteq> Some (facilitatorPublicKey env)"
  shows "verify env body =
           yield (Reply 400 (Invalid
             (mismatch_reason (truthy_opt (property body ''paymentRequirements''))
                (opt_chain (property body ''paymentPayload'') ''network'')
                (\<lambda>nw. connections env nw \<noteq> None) (feePayer tx))))"
proof -
  from assms(1) obtain kvs where pp: "property body ''paymentPayload'' = Some (JObj kvs)"
    using extract_Inr_object by blast
  note vf = verify_format_mismatch[OF assms(2,3,4)]
  from assms(1) show ?thesis
    by (simp add: verify_def verify_checked_def pp vf mismatch_reason_def refuse_def
        split: option.split json.split)
qed

lemma connections_update:
  "(connections (env\<lparr>devnet := c1, mainnet := c2, testnet := c3\<rparr>) nw \<noteq> None)
     = (connections env nw \<noteq> None)"
  by (simp add: connections_def)

text \<open>
  Claim C2. A sponsored payload whose decoded transaction does not have the facilitator's
  key as fee payer is answered 400 with \<open>isValid: false\<close> and a reason, whatever the
  rest of the request is. No ledger call is made and the world is untouched, so the
  simulation is never asked; the response is the same whatever connections the registry
  holds. When the requirements are there and the network is registered, the reason is
  that the fee payer is not the facilitator.
\<close>

theorem sponsored_fee_payer_mismatch_rejected:
  assumes "extractTransactionData (property body ''paymentPayload'') = Inr d"
    and "format d = facilitator_sponsored"
    and "Transaction_from env (facilitatorTransaction d) = Inr tx"
    and "feePayer tx \<noteq> Some (facilitatorPublicKey env)"
  shows "verify env body w =
           (Reply 400 (Invalid
              (mismatch_reason (truthy_opt (property body ''paymentRequirements''))
                 (opt_chain (property body ''paymentPayload'') ''network'')
                 (\<lambda>nw. connections env nw \<noteq> None) (feePayer tx))), w, [])
       \<and> verify (env\<lparr>devnet := c1, mainnet := c2, testnet := c3\<rparr>) body w = verify env body w
       \<and> (truthy_opt (property body ''paymentRequirements'') \<and>
          opt_chain (property body ''paymentPayload'') ''network'' = Some (JStr nw) \<and>
          take 7 nw = ''solana-'' \<and> connections env nw \<noteq> None \<and> feePayer tx = Some fp
          \<longrightarrow> verify env body w =
                (Reply 400 (Invalid ''Transaction fee payer is not the facilitator''), w, []))"
proof -
  let ?env' = "env\<lparr>devnet := c1, mainnet := c2, testnet := c3\<rparr>"
  note f = verify_mismatch_formula[OF assms]
  have a3: "Transaction_from ?env' (facilitatorTransaction d) = Inr tx"
    using assms(3) by simp
  have a4: "feePayer tx \<noteq> Some (facilitatorPublicKey ?env')"
    using assms(4) by simp
  note f' = verify_mismatch_formula[OF assms(1,2) a3 a4]
  have 1: "verify env body w =
           (Reply 400 (Invalid
              (mismatch_reason (truthy_opt (property body ''paymentRequirements''))
                 (opt_chain (property body ''paymentPayload'') ''network'')
                 (\<lambda>nw. connections env nw \<noteq> None) (feePayer tx))), w, [])"
    by (simp add: f yield_def)
  have 2: "verify ?env' body w = verify env body w"
    by (simp only: f f' connections_update)
  have 3: "truthy_opt (property body ''paymentRequirements'') \<and>
          opt_chain (property body ''paymentPayload'') ''network'' = Some (JStr nw) \<and>
          take 7 nw = ''solana-'' \<and> connections env nw \<noteq> None \<and> feePayer tx = Some fp
          \<longrightarrow> verify env body w =
                (Reply 400 (Invalid ''Transaction fee payer is not the facilitator''), w, [])"
    by (auto simp: 1 mismatch_reason_def)
  from 1 2 3 show ?thesis by blast
qed

theorem sponsored_fee_payer_mismatch_rejected_witness:
  "verify (test_env (test_connection (Inr None) (Inr None) (Inr None)))
     (test_body (JObj [(''userSignature'', JStr ''sig''),
                       (''facilitatorTransaction'', JStr ''dXNlcg==''),
                       (''userPublicKey'', JStr ''USER'')])) 0
   = (Reply 400 (Invalid ''Transaction fee payer is not the facilitator''), 0, [])"
proof -
  let ?env = "test_env (test_connection (Inr None) (Inr None) (Inr None))"
  let ?body = "test_body (JObj [(''userSignature'', JStr ''sig''),
                       (''facilitatorTransaction'', JStr ''dXNlcg==''),
                       (''userPublicKey'', JStr ''USER'')])"
  let ?d = "(no_data facilitator_sponsored)
           \<lparr> userSignature := Some (JStr ''sig''),
             facilitatorTransaction := Some (JStr ''dXNlcg==''),
             userPublicKey := Some (JStr ''USER'') \<rparr>"
  have h1: "extractTransactionData (property ?body ''paymentPayload'') = Inr ?d"
    by (simp add: test_body_def extractTransactionData_def)
  have h2: "format ?d = facilitator_sponsored"
    by simp
  have h3: "Transaction_from ?env (facilitatorTransaction ?d) = Inr (test_tx ''USER'')"
    by (simp add: test_env_def test_decode_def no_data_def)
  have h4: "feePayer (test_tx ''USER'') \<noteq> Some (facilitatorPublicKey ?env)"
    by (simp add: test_env_def test_tx_def)
  have g: "truthy_opt (property ?body ''paymentRequirements'') \<and>
          opt_chain (property ?body ''paymentPayload'') ''network'' = Some (JStr ''solana-devnet'') \<and>
          take 7 ''solana-devnet'' = ''solana-'' \<and> connections ?env ''solana-devnet'' \<noteq> None \<and>
          feePayer (test_tx ''USER'') = Some ''USER''"
    by (simp add: test_body_def connections_def test_tx_def)
  from sponsored_fee_payer_mismatch_rejected
         [OF h1 h2 h3 h4, where nw = "''solana-devnet''" and fp = "''USER''" and w = 0] g
  show ?thesis by blast
qed

text \<open>
  Claim C3. For every request and every ledger, each call \<^verbatim>\<open>/verify\<close> makes is a
  simulation or a lookup by signature, none is a broadcast; and on a ledger where those
  two are reads the world after the handler is the world before it, so running it again
  gives the same verdict.
\<close>

theorem verify_never_broadcasts_and_is_idempotent:
  "list_all simulation_or_lookup (calls_of (verify env body w))
   \<and> \<not> list_ex is_broadcast (calls_of (verify env body w))
   \<and> (read_only_ledger env \<longrightarrow>
        world_of (verify env body w) = w \<and>
        value_of (verify env body (world_of (verify env body w))) = value_of (verify env body w))"
proof -
  have 1: "list_all simulation_or_lookup (calls_of (verify env body w))"
    using makes_verify[of env body] by (simp add: makes_def)
  have "\<And>cs. list_all simulation_or_lookup cs \<Longrightarrow> \<not> list_ex is_broadcast cs"
  proof -
    fix cs show "list_all simulation_or_lookup cs \<Longrightarrow> \<not> list_ex is_broadcast cs"
    proof (induction cs)
      case Nil
      then show ?case by simp
    next
      case (Cons c cs)
      then show ?case by (cases c) simp_all
    qed
  qed
  with 1 have 2: "\<not> list_ex is_broadcast (calls_of (verify env body w))" by blast
  have 3: "read_only_ledger env \<longrightarrow>
        world_of (verify env body w) = w \<and>
        value_of (verify env body (world_of (verify env body w))) = value_of (verify env body w)"
  proof
    assume "read_only_ledger env"
    then have "world_of (verify env body w) = w"
      using keeps_verify[of env body] by (simp add: keeps_def)
    then show "world_of (verify env body w) = w \<and>
        value_of (verify env body (world_of (verify env body w))) = value_of (verify env body w)"
      by simp
  qed
  from 1 2 3 show ?thesis by blast
qed

theorem verify_never_broadcasts_and_is_idempotent_witness:
  "read_only_ledger (test_env (test_connection (Inr None) (Inr None) (Inr None)))
   \<and> verify (test_env (test_connection (Inr None) (Inr None) (Inr None)))
       (test_body (JObj [(''signature'', JStr ''S1''), (''transaction'', JStr ''dHg='')])) 0
     = (Reply 200 (Valid (Some (JStr ''unknown'')) False), 0,
        [SimulateTransaction (test_tx ''FAC''), GetTransaction (Some (JStr ''S1''))])
   \<and> value_of (verify (test_env (test_connection (Inr None) (Inr None) (Inr None)))
       (test_body (JObj [(''signature'', JStr ''S1''), (''transaction'', JStr ''dHg='')]))
         (world_of (verify (test_env (test_connection (Inr None) (Inr None) (Inr None)))
       (test_body (JObj [(''signature'', JStr ''S1''), (''transaction'', JStr ''dHg='')])) 0)))
     = Reply 200 (Valid (Some (JStr ''unknown'')) False)"
  using verify_never_broadcasts_and_is_idempotent
    [of "test_env (test_connection (Inr None) (Inr None) (Inr None))"
        "test_body (JObj [(''signature'', JStr ''S1''), (''transaction'', JStr ''dHg='')])" 0]
  by (simp add: read_only_ledger_def quiet_def test_env_def test_connection_def
      verify_def verify_checked_def verify_format_def test_body_def extractTransactionData_def
      connections_def test_decode_def await_def yield_def accept_def reported_payer_def no_data_def test_tx_def
      refuse_def)

text \<open>
  Claim C6. For a full or minimal payload that passes the request checks, \<^verbatim>\<open>/verify\<close>
  decodes the embedded transaction (a transaction that does not decode is rejected) and
  simulates the decoded transaction first; a simulation that throws or reports an error
  is rejected; after a clean simulation a transaction found under the claimed signature
  is rejected as already executed, and when none is found the payload is accepted.
\<close>

theorem verify_full_minimal_simulates_and_rejects_replay:
  assumes "property body ''paymentPayload'' = Some pp"
    and "truthy_opt (property body ''paymentRequirements'')"
    and "property pp ''network'' = Some (JStr nw)" and "take 7 nw = ''solana-''"
    and "connections env nw = Some (Conn c)"
    and "extractTransactionData (Some pp) = Inr d"
    and "format d = minimal \<or> format d = full"
  shows "(Transaction_from env (transaction d) = Inl e \<longrightarrow>
           verify env body w =
             (Reply 400 (Invalid (''Transaction validation failed: '' @ message e)), w, []))
       \<and> (Transaction_from env (transaction d) = Inr tx \<and>
          simulateTransaction c tx w = (Inl e, w1) \<longrightarrow>
           verify env body w =
             (Reply 400 (Invalid (''Transaction validation failed: '' @ message e)), w1,
              [SimulateTransaction tx]))
       \<and> (Transaction_from env (transaction d) = Inr tx \<and>
          simulateTransaction c tx w = (Inr (Some er), w1) \<longrightarrow>
           verify env body w =
             (Reply 400 (Invalid (''Transaction simulation failed: '' @ er)), w1,
              [SimulateTransaction tx]))
       \<and> (Transaction_from env (transaction d) = Inr tx \<and>
          simulateTransaction c tx w = (Inr None, w1) \<and>
          getTransaction c (signature d) w1 = (Inr (Some existingTx), w2) \<longrightarrow>
           verify env body w =
             (Reply 400 (Invalid ''Transaction already executed on blockchain''), w2,
              [SimulateTransaction tx, GetTransaction (signature d)]))
       \<and> (Transaction_from env (transaction d) = Inr tx \<and>
          simulateTransaction c tx w = (Inr None, w1) \<and>
          getTransaction c (signature d) w1 = (Inr None, w2) \<longrightarrow>
           verify env body w =
             (Reply 200 (Valid (js_or (payer d)
                  (js_or (opt_chain (opt_chain (property pp ''payload'') ''authorization'') ''from'')
                     (Some (JStr ''unknown'')))) False), w2,
              [SimulateTransaction tx, GetTransaction (signature d)]))"
  using verify_full_minimal_run(1)[OF assms, of e w]
    verify_full_minimal_run(2)[OF assms, of tx w e w1]
    verify_full_minimal_run(3)[OF assms, of tx w er w1]
    verify_full_minimal_run(4)[OF assms, of tx w w1 existingTx w2]
    verify_full_minimal_run(5)[OF assms, of tx w w1 "Inr None" w2]
  by blast

lemma test_gates:
  "property (test_body payload) ''paymentPayload'' =
     Some (JObj [(''network'', JStr ''solana-devnet''), (''payload'', payload)])"
  "truthy_opt (property (test_body payload) ''paymentRequirements'')"
  "property (JObj [(''network'', JStr ''solana-devnet''), (''payload'', payload)]) ''network''
     = Some (JStr ''solana-devnet'')"
  "take 7 ''solana-devnet'' = ''solana-''"
  "connections (test_env c) ''solana-devnet'' = Some (Conn c)"
  by (simp_all add: test_body_def connections_def test_env_def)

lemma test_minimal:
  "extractTransactionData
     (Some (JObj [(''network'', JStr ''solana-devnet''), (''payload'', minimal_payload)]))
     = Inr minimal_data"
  "format minimal_data = minimal \<or> format minimal_data = full"
  "Transaction_from (test_env c) (transaction minimal_data) = Inr (test_tx ''FAC'')"
  "signature minimal_data = Some (JStr ''S1'')"
  "payer minimal_data = None"
  by (simp_all add: extractTransactionData_def minimal_payload_def minimal_data_def
      test_env_def test_decode_def no_data_def)

theorem verify_full_minimal_simulates_and_rejects_replay_witness:
  "verify (test_env (test_connection (Inr None) (Inr None) (Inr None)))
      (test_body minimal_payload) 0
     = (Reply 200 (Valid (Some (JStr ''unknown'')) False), 0,
        [SimulateTransaction (test_tx ''FAC''), GetTransaction (Some (JStr ''S1''))])
   \<and> verify (test_env (test_connection (Inr None) (Inr (Some found_tx)) (Inr None)))
      (test_body minimal_payload) 0
     = (Reply 400 (Invalid ''Transaction already executed on blockchain''), 0,
        [SimulateTransaction (test_tx ''FAC''), GetTransaction (Some (JStr ''S1''))])
   \<and> verify (test_env (test_connection (Inr (Some ''AccountNotFound'')) (Inr None) (Inr None)))
      (test_body minimal_payload) 0
     = (Reply 400 (Invalid ''Transaction simulation failed: AccountNotFound''), 0,
        [SimulateTransaction (test_tx ''FAC'')])"
proof -
  have s: "\<And>sim look st tx w. simulateTransaction (test_connection sim look st) tx w = (sim, w)"
    and g: "\<And>sim look st sg w. getTransaction (test_connection sim look st) sg w = (look, w)"
    by (simp_all add: test_connection_def)
  note t = verify_full_minimal_simulates_and_rejects_replay
             [OF test_gates test_minimal(1,2),
              where tx = "test_tx ''FAC''" and w = 0 and ?w1.0 = 0 and ?w2.0 = 0]
  from t[where c = "test_connection (Inr None) (Inr None) (Inr None)"]
  have 1: "verify (test_env (test_connection (Inr None) (Inr None) (Inr None)))
      (test_body minimal_payload) 0
     = (Reply 200 (Valid (Some (JStr ''unknown'')) False), 0,
        [SimulateTransaction (test_tx ''FAC''), GetTransaction (Some (JStr ''S1''))])"
    by (simp add: s g test_minimal minimal_payload_def)
  from t[where c = "test_connection (Inr None) (Inr (Some found_tx)) (Inr None)"
           and existingTx = found_tx]
  have 2: "verify (test_env (test_connection (Inr None) (Inr (Some found_tx)) (Inr None)))
      (test_body minimal_payload) 0
     = (Reply 400 (Invalid ''Transaction already executed on blockchain''), 0,
        [SimulateTransaction (test_tx ''FAC''), GetTransaction (Some (JStr ''S1''))])"
    by (simp add: s g test_minimal)
  from t[where c = "test_connection (Inr (Some ''AccountNotFound'')) (Inr None) (Inr None)"
           and er = "''AccountNotFound''"]
  have 3: "verify (test_env (test_connection (Inr (Some ''AccountNotFound'')) (Inr None) (Inr None)))
      (test_body minimal_payload) 0
     = (Reply 400 (Invalid ''Transaction simulation failed: AccountNotFound''), 0,
        [SimulateTransaction (test_tx ''FAC'')])"
    by (simp add: s g test_minimal)
  from 1 2 3 show ?thesis by blast
qed

text \<open>
  Claim C10. For a full or minimal payload whose simulation is clean, a replay lookup that
  throws is swallowed: the payload is accepted with the response it gets when the lookup
  finds nothing.
\<close>

theorem verify_accepts_when_replay_lookup_fails:
  assumes "property body ''paymentPayload'' = Some pp"
    and "truthy_opt (property body ''paymentRequirements'')"
    and "property pp ''network'' = Some (JStr nw)" and "take 7 nw = ''solana-''"
    and "connections env nw = Some (Conn c)"
    and "extractTransactionData (Some pp) = Inr d"
    and "format d = minimal \<or> format d = full"
    and "Transaction_from env (transaction d) = Inr tx"
    and "simulateTransaction c tx w = (Inr None, w1)"
    and "getTransaction c (signature d) w1 = (looked, w2)"
    and "looked = Inl e \<or> looked = Inr None"
  shows "verify env body w =
           (Reply 200 (Valid (js_or (payer d)
                (js_or (opt_chain (opt_chain (property pp ''payload'') ''authorization'') ''from'')
                   (Some (JStr ''unknown'')))) False), w2,
            [SimulateTransaction tx, GetTransaction (signature d)])"
  using verify_full_minimal_run(5)[OF assms(1-10), of e] assms(11) by blast

theorem verify_accepts_when_replay_lookup_fails_witness:
  "verify (test_env (test_connection (Inr None) (Inl (Error ''fetch failed'')) (Inr None)))
      (test_body minimal_payload) 0
     = (Reply 200 (Valid (Some (JStr ''unknown'')) False), 0,
        [SimulateTransaction (test_tx ''FAC''), GetTransaction (Some (JStr ''S1''))])"
proof -
  let ?c = "test_connection (Inr None) (Inl (Error ''fetch failed'')) (Inr None)"
  have s: "simulateTransaction ?c (test_tx ''FAC'') 0 = (Inr None, 0)"
    and g: "getTransaction ?c (signature minimal_data) 0 = (Inl (Error ''fetch failed''), 0)"
    by (simp_all add: test_connection_def)
  have l: "Inl (Error ''fetch failed'') = Inl (Error ''fetch failed'')
             \<or> (Inl (Error ''fetch failed'') :: js_error + tx_info option) = Inr None"
    by simp
  from verify_accepts_when_replay_lookup_fails
         [OF test_gates test_minimal(1,2,3) s g l]
  show ?thesis by (simp add: test_minimal minimal_payload_def)
qed

section \<open>Properties of settlement\<close>

lemma no_broadcast_of_reads:
  "list_all simulation_or_lookup cs \<Longrightarrow> \<not> list_ex is_broadcast cs"
proof (induction cs)
  case Nil
  then show ?case by simp
next
  case (Cons c cs)
  then show ?case by (cases c) simp_all
qed

lemma makes_confirm_existing: "makes simulation_or_lookup (confirm_existing h sg)"
  unfolding confirm_existing_def
  by (auto intro!: makes_await makes_get split: sum.split option.split)

lemma settle_try_authorization:
  assumes "extractTransactionData (Some pp) = Inr d" and "format d = authorization_only"
  shows "settle_try rounds env (Some pp) =
     (case lookup_connection env (property pp ''network'') of
        Inl e \<Rightarrow> yield (Some (Inl e))
      | Inr None \<Rightarrow>
          yield (Some (Inl (Error ''Invalid settlement request: unsupported network'')))
      | Inr (Some connection) \<Rightarrow>
          await (confirm_existing connection (signature d))
            (\<lambda>r. case r of
               None \<Rightarrow> yield None
             | Some (Inl e) \<Rightarrow> yield (Some (Inl e))
             | Some (Inr result) \<Rightarrow>
                 yield (Some (settled env d (Some pp) (property pp ''network'') result))))"
proof -
  from assms(1) obtain kvs where pp: "pp = JObj kvs"
    using extract_Inr_object by blast
  from assms show ?thesis
    by (simp add: settle_try_def pp split: sum.split option.split)
qed

lemma makes_settle_try_authorization:
  assumes "extractTransactionData (Some pp) = Inr d" and "format d = authorization_only"
  shows "makes simulation_or_lookup (settle_try rounds env (Some pp))"
  unfolding settle_try_authorization[OF assms]
  by (auto intro!: makes_await makes_confirm_existing split: sum.split option.split)

lemma makes_settle_authorization:
  assumes "property body ''paymentPayload'' = Some pp"
    and "extractTransactionData (Some pp) = Inr d" and "format d = authorization_only"
  shows "makes simulation_or_lookup (settle rounds env body)"
  unfolding settle_def assms(1)
  by (auto intro!: makes_await makes_settle_try_authorization[OF assms(2,3)]
      split: sum.split option.split)

lemma reported_payer_unsponsored:
  assumes "extractTransactionData (Some pp) = Inr d" and "format d \<noteq> facilitator_sponsored"
  shows "reported_payer env d (Some pp) =
           Inr (js_or (payer d)
                  (js_or (opt_chain (opt_chain (property pp ''payload'') ''authorization'') ''from'')
                     (Some (JStr ''unknown''))))"
proof -
  from assms(1) obtain kvs where "pp = JObj kvs"
    using extract_Inr_object by blast
  with assms(2) show ?thesis
    by (simp add: reported_payer_def)
qed

lemma settled_unsponsored:
  assumes "extractTransactionData (Some pp) = Inr d" and "format d \<noteq> facilitator_sponsored"
  shows "settled env d (Some pp) network result =
          Inr \<lparr> settled_transaction = receipt_signature result,
                settled_network = network,
                settled_payer = js_or (payer d)
                  (js_or (opt_chain (opt_chain (property pp ''payload'') ''authorization'') ''from'')
                     (Some (JStr ''unknown''))),
                settled_status = receipt_status result,
                settled_slot = receipt_slot result,
                settled_blockTime = receipt_blockTime result,
                settled_fees = fees result,
                settled_gasSponsoredByFacilitator = False,
                userPaidGas = True \<rparr>"
  using assms by (simp add: settled_def reported_payer_unsponsored)

lemma settle_authorization_run:
  assumes "property body ''paymentPayload'' = Some pp"
    and "extractTransactionData (Some pp) = Inr d" and "format d = authorization_only"
    and "lookup_connection env (property pp ''network'') = Inr (Some (Conn c))"
    and "getTransaction c (signature d) w = (looked, w1)"
  shows "settle rounds env body w =
     (case looked of
        Inl e \<Rightarrow>
          Some (Reply 400 (SettleFailed
            (''Settlement failed: Failed to verify existing transaction: '' @ message e)
            (property pp ''network'')))
      | Inr None \<Rightarrow>
          Some (Reply 400 (SettleFailed
            ''Settlement failed: Failed to verify existing transaction: Transaction not found on blockchain''
            (property pp ''network'')))
      | Inr (Some existingTx) \<Rightarrow>
          (case meta_err existingTx of
             Some er \<Rightarrow>
               Some (Reply 400 (SettleFailed
                 (''Settlement failed: Failed to verify existing transaction: Transaction failed: '' @ er)
                 (property pp ''network'')))
           | None \<Rightarrow>
               Some (Reply 200 (Settled
                 \<lparr> settled_transaction = signature d,
                   settled_network = property pp ''network'',
                   settled_payer = js_or (payer d)
                     (js_or (opt_chain (opt_chain (property pp ''payload'') ''authorization'') ''from'')
                        (Some (JStr ''unknown''))),
                   settled_status = ''confirmed'',
                   settled_slot = slot existingTx,
                   settled_blockTime = blockTime existingTx,
                   settled_fees = meta_fee existingTx,
                   settled_gasSponsoredByFacilitator = False,
                   userPaidGas = True \<rparr>))),
      w1, [GetTransaction (signature d)])"
proof -
  from assms(2) obtain kvs where pp: "pp = JObj kvs"
    using extract_Inr_object by blast
  from assms(3) have ns: "format d \<noteq> facilitator_sponsored" by simp
  note st = settled_unsponsored[OF assms(2) ns]
  have np: "get_prop (Some pp) ''network'' = Inr (property pp ''network'')"
    by (simp add: pp)
  show ?thesis
    by (simp add: settle_def assms(1) settle_try_authorization[OF assms(2,3)] assms(4)
        confirm_existing_def await_assoc await_getTransaction[OF assms(5)] st np
        split: sum.split option.split)
qed

text \<open>
  Claim C7. For an authorization-only payload \<^verbatim>\<open>/settle\<close> never broadcasts. On a resolved
  connection its one ledger call is the lookup of the claimed signature: a transaction
  found without execution error is reported confirmed, with the slot, block time and fee
  of the fetched transaction; a signature that is not found fails the attempt with the
  reason that the transaction was not found; a transaction found with an execution error
  fails it too.
\<close>

theorem settle_authorization_only_confirms_existing:
  assumes "property body ''paymentPayload'' = Some pp"
    and "extractTransactionData (Some pp) = Inr d" and "format d = authorization_only"
  shows "\<not> list_ex is_broadcast (calls_of (settle rounds env body w))
       \<and> (lookup_connection env (property pp ''network'') = Inr (Some (Conn c)) \<and>
          getTransaction c (signature d) w = (looked, w1) \<longrightarrow>
            calls_of (settle rounds env body w) = [GetTransaction (signature d)]
          \<and> (looked = Inr None \<longrightarrow>
               value_of (settle rounds env body w) =
                 Some (Reply 400 (SettleFailed
                   ''Settlement failed: Failed to verify existing transaction: Transaction not found on blockchain''
                   (property pp ''network''))))
          \<and> (looked = Inr (Some existingTx) \<and> meta_err existingTx = None \<longrightarrow>
               value_of (settle rounds env body w) =
                 Some (Reply 200 (Settled
                   \<lparr> settled_transaction = signature d,
                     settled_network = property pp ''network'',
                     settled_payer = js_or (payer d)
                       (js_or (opt_chain (opt_chain (property pp ''payload'') ''authorization'')
                                 ''from'')
                          (Some (JStr ''unknown''))),
                     settled_status = ''confirmed'',
                     settled_slot = slot existingTx,
                     settled_blockTime = blockTime existingTx,
                     settled_fees = meta_fee existingTx,
                     settled_gasSponsoredByFacilitator = False,
                     userPaidGas = True \<rparr>)))
          \<and> (looked = Inr (Some existingTx) \<and> meta_err existingTx = Some er \<longrightarrow>
               value_of (settle rounds env body w) =
                 Some (Reply 400 (SettleFailed
                   (''Settlement failed: Failed to verify existing transaction: Transaction failed: '' @ er)
                   (property pp ''network'')))))"
proof -
  have 1: "\<not> list_ex is_broadcast (calls_of (settle rounds env body w))"
    using makes_settle_authorization[OF assms, of rounds env]
    by (simp add: makes_def no_broadcast_of_reads)
  have 2: "lookup_connection env (property pp ''network'') = Inr (Some (Conn c)) \<and>
          getTransaction c (signature d) w = (looked, w1) \<longrightarrow>
            calls_of (settle rounds env body w) = [GetTransaction (signature d)]
          \<and> (looked = Inr None \<longrightarrow>
               value_of (settle rounds env body w) =
                 Some (Reply 400 (SettleFailed
                   ''Settlement failed: Failed to verify existing transaction: Transaction not found on blockchain''
                   (property pp ''network''))))
          \<and> (looked = Inr (Some existingTx) \<and> meta_err existingTx = None \<longrightarrow>
               value_of (settle rounds env body w) =
                 Some (Reply 200 (Settled
                   \<lparr> settled_transaction = signature d,
                     settled_network = property pp ''network'',
                     settled_payer = js_or (payer d)
                       (js_or (opt_chain (opt_chain (property pp ''payload'') ''authorization'')
                                 ''from'')
                          (Some (JStr ''unknown''))),
                     settled_status = ''confirmed'',
                     settled_slot = slot existingTx,
                     settled_blockTime = blockTime existingTx,
                     settled_fees = meta_fee existingTx,
                     settled_gasSponsoredByFacilitator = False,
                     userPaidGas = True \<rparr>)))
          \<and> (looked = Inr (Some existingTx) \<and> meta_err existingTx = Some er \<longrightarrow>
               value_of (settle rounds env body w) =
                 Some (Reply 400 (SettleFailed
                   (''Settlement failed: Failed to verify existing transaction: Transaction failed: '' @ er)
                   (property pp ''network''))))"
  proof
    assume a: "lookup_connection env (property pp ''network'') = Inr (Some (Conn c)) \<and>
          getTransaction c (signature d) w = (looked, w1)"
    note run = settle_authorization_run[OF assms conjunct1[OF a] conjunct2[OF a], of rounds]
    show "calls_of (settle rounds env body w) = [GetTransaction (signature d)]
          \<and> (looked = Inr None \<longrightarrow>
               value_of (settle rounds env body w) =
                 Some (Reply 400 (SettleFailed
                   ''Settlement failed: Failed to verify existing transaction: Transaction not found on blockchain''
                   (property pp ''network''))))
          \<and> (looked = Inr (Some existingTx) \<and> meta_err existingTx = None \<longrightarrow>
               value_of (settle rounds env body w) =
                 Some (Reply 200 (Settled
                   \<lparr> settled_transaction = signature d,
                     settled_network = property pp ''network'',
                     settled_payer = js_or (payer d)
                       (js_or (opt_chain (opt_chain (property pp ''payload'') ''authorization'')
                                 ''from'')
                          (Some (JStr ''unknown''))),
                     settled_status = ''confirmed'',
                     settled_slot = slot existingTx,
                     settled_blockTime = blockTime existingTx,
                     settled_fees = meta_fee existingTx,
                     settled_gasSponsoredByFacilitator = False,
                     userPaidGas = True \<rparr>)))
          \<and> (looked = Inr (Some existingTx) \<and> meta_err existingTx = Some er \<longrightarrow>
               value_of (settle rounds env body w) =
                 Some (Reply 400 (SettleFailed
                   (''Settlement failed: Failed to verify existing transaction: Transaction failed: '' @ er)
                   (property pp ''network''))))"
      by (simp add: run)
  qed
  from 1 2 show ?thesis by blast
qed

lemma test_authorization:
  "extractTransactionData
     (Some (JObj [(''network'', JStr ''solana-devnet''), (''payload'', authorization_payload)]))
     = Inr authorization_data"
  "format authorization_data = authorization_only"
  "signature authorization_data = Some (JStr ''S1'')"
  "payer authorization_data = Some (JStr ''PAYER'')"
  by (simp_all add: extractTransactionData_def authorization_payload_def authorization_data_def
      no_data_def)

lemma test_lookup:
  "lookup_connection (test_env c) (Some (JStr ''solana-devnet'')) = Inr (Some (Conn c))"
  by (simp add: lookup_connection_def connections_def test_env_def)

lemma found_tx_fields:
  "meta_err found_tx = None" "meta_fee found_tx = Some 5000"
  "slot found_tx = Some 7" "blockTime found_tx = Some 1700000000"
  by (simp_all add: found_tx_def meta_err_def meta_fee_def)

theorem settle_authorization_only_confirms_existing_witness:
  "value_of (settle 0 (test_env (test_connection (Inr None) (Inr (Some found_tx)) (Inr None)))
      (test_body authorization_payload) 0)
     = Some (Reply 200 (Settled
          \<lparr> settled_transaction = Some (JStr ''S1''),
            settled_network = Some (JStr ''solana-devnet''),
            settled_payer = Some (JStr ''PAYER''),
            settled_status = ''confirmed'',
            settled_slot = Some 7,
            settled_blockTime = Some 1700000000,
            settled_fees = Some 5000,
            settled_gasSponsoredByFacilitator = False,
            userPaidGas = True \<rparr>))
   \<and> calls_of (settle 0 (test_env (test_connection (Inr None) (Inr (Some found_tx)) (Inr None)))
      (test_body authorization_payload) 0) = [GetTransaction (Some (JStr ''S1''))]
   \<and> value_of (settle 0 (test_env (test_connection (Inr None) (Inr None) (Inr None)))
      (test_body authorization_payload) 0)
     = Some (Reply 400 (SettleFailed
          ''Settlement failed: Failed to verify existing transaction: Transaction not found on blockchain''
          (Some (JStr ''solana-devnet''))))
   \<and> calls_of (settle 0 (test_env (test_connection (Inr None) (Inr None) (Inr None)))
      (test_body authorization_payload) 0) = [GetTransaction (Some (JStr ''S1''))]"
proof -
  have g: "\<And>sim look st sg w. getTransaction (test_connection sim look st) sg w = (look, w)"
    by (simp add: test_connection_def)
  note t = settle_authorization_only_confirms_existing
             [OF test_gates(1) test_authorization(1,2), where rounds = 0 and w = 0 and ?w1.0 = 0]
  from t[where env = "test_env (test_connection (Inr None) (Inr (Some found_tx)) (Inr None))"
           and c = "test_connection (Inr None) (Inr (Some found_tx)) (Inr None)"
           and looked = "Inr (Some found_tx)" and existingTx = found_tx]
       t[where env = "test_env (test_connection (Inr None) (Inr None) (Inr None))"
           and c = "test_connection (Inr None) (Inr None) (Inr None)"
           and looked = "Inr None"]
  show ?thesis
    by (simp add: test_lookup g test_authorization found_tx_fields)
qed

text \<open>
  Claim C9 fails on \<^verbatim>\<open>/settle\<close>: with \<^verbatim>\<open>paymentPayload\<close> missing from the body, or
  \<^verbatim>\<open>null\<close>, the read of \<^verbatim>\<open>paymentPayload.network\<close> throws inside the \<^verbatim>\<open>try\<close>, and the
  \<^verbatim>\<open>catch\<close> reads it again to build the failure body: the second \<^verbatim>\<open>TypeError\<close> leaves
  the handler, and no response is sent.
\<close>

theorem settle_without_paymentPayload_is_unhandled:
  "settle rounds env (JObj [(''paymentRequirements'', requirements)]) w =
     (Some (Unhandled (TypeError (''Cannot read properties of undefined (reading '' @
                         [CHR 0x27] @ ''network'' @ [CHR 0x27] @ '')''))), w, [])
   \<and> settle rounds env
       (JObj [(''paymentPayload'', JNull), (''paymentRequirements'', requirements)]) w =
     (Some (Unhandled (TypeError (''Cannot read properties of null (reading '' @
                         [CHR 0x27] @ ''network'' @ [CHR 0x27] @ '')''))), w, [])"
  by (simp add: settle_def settle_try_def yield_def)

lemma loop_step:
  "confirmation_loop (Suc n) env (Conn c) sg start timeout cs w =
     (if \<not> (Date_now env w - start < timeout)
      then (Some (timed_out_receipt sg cs), w, [DateNow (Date_now env w)])
      else
        after [DateNow (Date_now env w),
               GetSignatureStatus sg (fst (getSignatureStatus c sg w))]
          (case fst (getSignatureStatus c sg w) of
             Inl e \<Rightarrow>
               confirmation_loop n env (Conn c) sg start timeout cs
                 (snd (getSignatureStatus c sg w))
           | Inr None \<Rightarrow>
               confirmation_loop n env (Conn c) sg start timeout cs
                 (sleep env 2000 (snd (getSignatureStatus c sg w)))
           | Inr (Some st) \<Rightarrow>
               if status_err st \<noteq> None
               then confirmation_loop n env (Conn c) sg start timeout
                      (or_processed (confirmationStatus st)) (snd (getSignatureStatus c sg w))
               else if terminal (or_processed (confirmationStatus st))
               then confirmed_receipt (Conn c) sg (or_processed (confirmationStatus st))
                      (snd (getSignatureStatus c sg w))
               else confirmation_loop n env (Conn c) sg start timeout
                      (or_processed (confirmationStatus st))
                      (sleep env 2000 (snd (getSignatureStatus c sg w)))))"
  by (cases "getSignatureStatus c sg w")
     (simp add: await_def clock_def wait_def yield_def timed_out_receipt_def
        split: sum.split option.split prod.split)

declare confirmation_loop.simps(2) [simp del]

lemma confirmed_receipt_result:
  "confirmed_receipt (Conn c) sg cs w = (x, w1, c2) \<Longrightarrow>
     \<exists>r. x = Some r \<and> receipt_signature r = Some (JStr sg) \<and> confirmed r \<and>
         receipt_status r = cs \<and> c2 = [GetTransaction (Some (JStr sg))]"
  by (cases "getTransaction c (Some (JStr sg)) w")
     (auto simp: confirmed_receipt_def await_def yield_def split: sum.splits)

lemma post_timeout:
  "\<not> (now - start < timeout) \<Longrightarrow>
   loop_post sg start timeout cs (timed_out_receipt sg cs) [DateNow now]"
  by (simp add: loop_post_def timed_out_receipt_def)

lemma post_confirm:
  assumes "now - start < timeout" and "confirming res"
    and "receipt_signature r = Some (JStr sg)" and "confirmed r"
    and "receipt_status r = observe cs res"
  shows "loop_post sg start timeout cs r
           [DateNow now, GetSignatureStatus sg res, GetTransaction (Some (JStr sg))]"
  using assms
  by (cases res rule: confirming.cases) (simp_all add: loop_post_def)

lemma post_continue:
  assumes "now - start < timeout" and "\<not> confirming res"
    and "loop_post sg start timeout (observe cs res) r calls"
  shows "loop_post sg start timeout cs r (DateNow now # GetSignatureStatus sg res # calls)"
proof -
  from assms(3) obtain now' rest where calls: "calls = DateNow now' # rest"
    by (auto simp: loop_post_def)
  from assms show ?thesis
    by (auto simp: loop_post_def calls)
qed

lemma loop_post_holds:
  "confirmation_loop n env (Conn c) sg start timeout cs w = (Some r, w1, calls) \<Longrightarrow>
   loop_post sg start timeout cs r calls"
proof (induction n arbitrary: cs w calls)
  case 0
  then show ?case by simp
next
  case (Suc n)
  let ?now = "Date_now env w"
  let ?res = "fst (getSignatureStatus c sg w)"
  let ?w' = "snd (getSignatureStatus c sg w)"
  show ?case
  proof (cases "?now - start < timeout")
    case False
    with Suc.prems have "r = timed_out_receipt sg cs" "calls = [DateNow ?now]"
      by (auto simp: loop_step)
    with False show ?thesis by (simp add: post_timeout)
  next
    case True
    have continue: "loop_post sg start timeout cs r calls"
      if "\<not> confirming ?res"
        and "confirmation_loop n env (Conn c) sg start timeout (observe cs ?res) w2
               = (Some r, w1, rest)"
        and "calls = DateNow ?now # GetSignatureStatus sg ?res # rest"
      for w2 rest
      using post_continue[OF True that(1) Suc.IH[OF that(2)]] that(3) by simp
    show ?thesis
    proof (cases ?res)
      case (Inl e)
      from Suc.prems True Inl obtain rest where
        "confirmation_loop n env (Conn c) sg start timeout cs ?w' = (Some r, w1, rest)"
        "calls = DateNow ?now # GetSignatureStatus sg ?res # rest"
        by (cases "confirmation_loop n env (Conn c) sg start timeout cs ?w'")
           (simp add: loop_step)
      with Inl show ?thesis by (intro continue[of ?w' rest]) simp_all
    next
      case (Inr v)
      show ?thesis
      proof (cases v)
        case None
        from Suc.prems True Inr None obtain rest where
          "confirmation_loop n env (Conn c) sg start timeout cs (sleep env 2000 ?w')
             = (Some r, w1, rest)"
          "calls = DateNow ?now # GetSignatureStatus sg ?res # rest"
          by (cases "confirmation_loop n env (Conn c) sg start timeout cs (sleep env 2000 ?w')")
             (simp add: loop_step)
        with Inr None show ?thesis by (intro continue[of "sleep env 2000 ?w'" rest]) simp_all
      next
        case (Some st)
        let ?cs' = "or_processed (confirmationStatus st)"
        show ?thesis
        proof (cases "status_err st \<noteq> None")
          case True
          from Suc.prems \<open>?now - start < timeout\<close> Inr Some True obtain rest where
            "confirmation_loop n env (Conn c) sg start timeout ?cs' ?w' = (Some r, w1, rest)"
            "calls = DateNow ?now # GetSignatureStatus sg ?res # rest"
            by (cases "confirmation_loop n env (Conn c) sg start timeout ?cs' ?w'")
               (simp add: loop_step)
          with Inr Some True show ?thesis by (intro continue[of ?w' rest]) auto
        next
          case noerr: False
          show ?thesis
          proof (cases "terminal ?cs'")
            case True
            from Suc.prems \<open>?now - start < timeout\<close> Inr Some noerr True obtain x c2 where
              cr: "confirmed_receipt (Conn c) sg ?cs' ?w' = (x, w1, c2)"
              and x: "x = Some r"
              and calls: "calls = DateNow ?now # GetSignatureStatus sg ?res # c2"
              by (cases "confirmed_receipt (Conn c) sg ?cs' ?w'") (simp add: loop_step)
            from confirmed_receipt_result[OF cr] x
            have r: "receipt_signature r = Some (JStr sg)" "confirmed r"
              "receipt_status r = ?cs'" "c2 = [GetTransaction (Some (JStr sg))]"
              by auto
            have "confirming ?res" "observe cs ?res = ?cs'"
              using Inr Some noerr True by simp_all
            with post_confirm[OF \<open>?now - start < timeout\<close>, of ?res r sg cs] r calls
            show ?thesis by simp
          next
            case False
            from Suc.prems \<open>?now - start < timeout\<close> Inr Some noerr False obtain rest where
              "confirmation_loop n env (Conn c) sg start timeout ?cs' (sleep env 2000 ?w')
                 = (Some r, w1, rest)"
              "calls = DateNow ?now # GetSignatureStatus sg ?res # rest"
              by (cases "confirmation_loop n env (Conn c) sg start timeout ?cs'
                           (sleep env 2000 ?w')")
                 (simp add: loop_step)
            with Inr Some noerr False show ?thesis
              by (intro continue[of "sleep env 2000 ?w'" rest]) auto
          qed
        qed
      qed
    qed
  qed
qed

lemma value_of_Some:
  "(\<exists>r w1 calls. x = (Some r, w1, calls)) = (value_of x \<noteq> None)"
  by (cases x) auto

lemma confirmed_receipt_Some: "value_of (confirmed_receipt (Conn c) sg cs w) \<noteq> None"
  using confirmed_receipt_result[of c sg cs w]
  by (cases "confirmed_receipt (Conn c) sg cs w") auto

lemma loop_terminates:
  assumes "ticking env c"
  shows "nat (start + timeout - Date_now env w) < n \<Longrightarrow>
         value_of (confirmation_loop n env (Conn c) sg start timeout cs w) \<noteq> None"
proof (induction n arbitrary: cs w)
  case 0
  then show ?case by simp
next
  case (Suc n)
  let ?now = "Date_now env w"
  let ?w' = "snd (getSignatureStatus c sg w)"
  show ?case
  proof (cases "?now - start < timeout")
    case False
    then show ?thesis by (simp add: loop_step)
  next
    case True
    from assms have t1: "?now < Date_now env ?w'"
      and t2: "Date_now env ?w' \<le> Date_now env (sleep env 2000 ?w')"
      by (simp_all add: ticking_def)
    from Suc.prems True t1 have m1: "nat (start + timeout - Date_now env ?w') < n"
      by linarith
    from Suc.prems True t1 t2 have m2: "nat (start + timeout - Date_now env (sleep env 2000 ?w')) < n"
      by linarith
    note ih1 = Suc.IH[OF m1] and ih2 = Suc.IH[OF m2]
    have s: "\<And>x. (\<exists>y. value_of x = Some y) = (value_of x \<noteq> None)" by simp
    from True show ?thesis
      by (simp add: loop_step s ih1 ih2 confirmed_receipt_Some split: sum.split option.split
          del: not_None_eq)
  qed
qed

lemma helper_unfold:
  "settleSolanaTransaction rounds env connection encoded timeout w =
     (case Transaction_from env encoded of
        Inl e \<Rightarrow> (Some (Inl e), w, [])
      | Inr tx \<Rightarrow>
          (case feePayer tx of
             None \<Rightarrow>
               (Some (Inl (TypeError (''Cannot read properties of undefined (reading '' @
                        [CHR 0x27] @ ''toBase58'' @ [CHR 0x27] @ '')''))), w, [])
           | Some fp \<Rightarrow>
               (case serialize env True tx of
                  Inl e \<Rightarrow> (Some (Inl e), w, [])
                | Inr raw \<Rightarrow>
                    (case connection of
                       Inherited \<Rightarrow> (Some (Inl (not_a_function ''sendRawTransaction'')), w, [])
                     | Conn c \<Rightarrow>
                         (case sendRawTransaction c raw w of
                            (Inl e, w2) \<Rightarrow> (Some (Inl e), w2, [SendRawTransaction raw (Inl e)])
                          | (Inr sg, w2) \<Rightarrow>
                              (case confirmation_loop rounds env (Conn c) sg (Date_now env w2)
                                      timeout ''processed'' w2 of
                                 (r, w1, rest) \<Rightarrow>
                                   (map_option Inr r, w1,
                                    SendRawTransaction raw (Inr sg) #
                                    DateNow (Date_now env w2) # rest)))))))"
  by (simp add: settleSolanaTransaction_def await_def yield_def clock_def
      split: sum.split option.split handle.split prod.split)

lemma helper_returns:
  assumes "settleSolanaTransaction rounds env connection encoded timeout w
             = (Some (Inr r), w1, calls)"
  obtains c tx raw sg w2 rest where
    "connection = Conn c" "Transaction_from env encoded = Inr tx"
    "serialize env True tx = Inr raw"
    "sendRawTransaction c raw w = (Inr sg, w2)"
    "calls = SendRawTransaction raw (Inr sg) # DateNow (Date_now env w2) # rest"
    "confirmation_loop rounds env (Conn c) sg (Date_now env w2) timeout ''processed'' w2
       = (Some r, w1, rest)"
  using assms unfolding helper_unfold
  by (auto split: sum.splits option.splits handle.splits prod.splits)

lemma test_env_fields:
  "Transaction_from (test_env c) = test_decode"
  "serialize (test_env c) = (\<lambda>requireAllSignatures tx. Inr ''raw'')"
  "Date_now (test_env c) = (\<lambda>w. w)"
  "sleep (test_env c) = (\<lambda>ms w. w + int ms)"
  "facilitatorPublicKey (test_env c) = ''FAC''"
  by (simp_all add: test_env_def)

lemma test_connection_fields:
  "sendRawTransaction (test_connection sim look st) = (\<lambda>raw w. (Inr ''SIG1'', w + 50))"
  "getSignatureStatus (test_connection sim look st) = (\<lambda>sg w. (st, w + 10000))"
  "getTransaction (test_connection sim look st) = (\<lambda>sg w. (look, w))"
  "simulateTransaction (test_connection sim look st) = (\<lambda>tx w. (sim, w))"
  by (simp_all add: test_connection_def)

lemma test_decode_known:
  "test_decode (Some (JStr ''dHg='')) = Inr (test_tx ''FAC'')"
  "feePayer (test_tx fp) = Some fp"
  by (simp_all add: test_decode_def test_tx_def)

lemma run_failing:
  "settleSolanaTransaction 4 (test_env failing_connection) (Conn failing_connection)
     (Some (JStr ''dHg='')) 30000 0
   = (Some (Inr \<lparr> receipt_signature = Some (JStr ''SIG1''), confirmed = False,
                    receipt_status = ''confirmed'', receipt_slot = None,
                    receipt_blockTime = None, fees = None \<rparr>), 30050,
      [SendRawTransaction ''raw'' (Inr ''SIG1''), DateNow 50,
       DateNow 50, GetSignatureStatus ''SIG1'' (Inr (Some failed_status)),
       DateNow 10050, GetSignatureStatus ''SIG1'' (Inr (Some failed_status)),
       DateNow 20050, GetSignatureStatus ''SIG1'' (Inr (Some failed_status)),
       DateNow 30050])"
proof -
  have f: "status_err failed_status \<noteq> None"
    "or_processed (confirmationStatus failed_status) = ''confirmed''"
    by (simp_all add: failed_status_def)
  show ?thesis
    by (simp add: helper_unfold eval_nat_numeral loop_step test_env_fields
        failing_connection_def test_connection_fields test_decode_known f
        timed_out_receipt_def)
qed

lemma run_stuck:
  "settleSolanaTransaction 4 (test_env stuck_connection) (Conn stuck_connection)
     (Some (JStr ''dHg='')) 30000 0
   = (Some (Inr \<lparr> receipt_signature = Some (JStr ''SIG1''), confirmed = False,
                    receipt_status = ''processed'', receipt_slot = None,
                    receipt_blockTime = None, fees = None \<rparr>), 36050,
      [SendRawTransaction ''raw'' (Inr ''SIG1''), DateNow 50,
       DateNow 50, GetSignatureStatus ''SIG1'' (Inr (Some processed_status)),
       DateNow 12050, GetSignatureStatus ''SIG1'' (Inr (Some processed_status)),
       DateNow 24050, GetSignatureStatus ''SIG1'' (Inr (Some processed_status)),
       DateNow 36050])"
proof -
  have f: "status_err processed_status = None"
    "or_processed (confirmationStatus processed_status) = ''processed''"
    "\<not> terminal ''processed''"
    by (simp_all add: processed_status_def terminal_def)
  show ?thesis
    by (simp add: helper_unfold eval_nat_numeral loop_step test_env_fields
        stuck_connection_def test_connection_fields test_decode_known f
        timed_out_receipt_def)
qed

lemma run_landing:
  "settleSolanaTransaction 1 (test_env landing_connection) (Conn landing_connection)
     (Some (JStr ''dHg='')) 30000 0
   = (Some (Inr \<lparr> receipt_signature = Some (JStr ''SIG1''), confirmed = True,
                    receipt_status = ''finalized'', receipt_slot = Some 7,
                    receipt_blockTime = Some 1700000000, fees = Some 5000 \<rparr>), 10050,
      [SendRawTransaction ''raw'' (Inr ''SIG1''), DateNow 50,
       DateNow 50, GetSignatureStatus ''SIG1'' (Inr (Some finalized_status)),
       GetTransaction (Some (JStr ''SIG1''))])"
proof -
  have f: "status_err finalized_status = None"
    "or_processed (confirmationStatus finalized_status) = ''finalized''"
    "terminal ''finalized''"
    by (simp_all add: finalized_status_def terminal_def)
  show ?thesis
    by (simp add: helper_unfold loop_step test_env_fields
        landing_connection_def test_connection_fields test_decode_known f
        confirmed_receipt_def await_def yield_def found_tx_fields)
qed

lemma run_slow:
  "settleSolanaTransaction 1 (test_env slow_connection) (Conn slow_connection)
     (Some (JStr ''dHg='')) 30000 0
   = (Some (Inr \<lparr> receipt_signature = Some (JStr ''SIG1''), confirmed = True,
                    receipt_status = ''finalized'', receipt_slot = Some 7,
                    receipt_blockTime = Some 1700000000, fees = Some 5000 \<rparr>), 34050,
      [SendRawTransaction ''raw'' (Inr ''SIG1''), DateNow 50,
       DateNow 50, GetSignatureStatus ''SIG1'' (Inr (Some finalized_status)),
       GetTransaction (Some (JStr ''SIG1''))])"
proof -
  have f: "status_err finalized_status = None"
    "or_processed (confirmationStatus finalized_status) = ''finalized''"
    "terminal ''finalized''"
    by (simp_all add: finalized_status_def terminal_def)
  have c: "sendRawTransaction slow_connection = (\<lambda>raw w. (Inr ''SIG1'', w + 50))"
    "getSignatureStatus slow_connection = (\<lambda>sg w. (Inr (Some finalized_status), w + 34000))"
    "getTransaction slow_connection = (\<lambda>sg w. (Inr (Some found_tx), w))"
    by (simp_all add: slow_connection_def landing_connection_def test_connection_def)
  show ?thesis
    by (simp add: helper_unfold loop_step test_env_fields c test_decode_known f
        confirmed_receipt_def await_def yield_def found_tx_fields)
qed

lemma confirming_without_error:
  "\<not> list_ex reports_error rs \<Longrightarrow> list_ex confirming rs = list_ex answers_terminal rs"
proof (induction rs)
  case Nil
  then show ?case by simp
next
  case (Cons r rs)
  have "\<not> reports_error r \<Longrightarrow> confirming r = answers_terminal r"
    by (cases r rule: reports_error.cases) simp_all
  with Cons show ?case by simp
qed

lemma helper_terminates:
  assumes "ticking env c" and "nat timeout < rounds"
  shows "value_of (settleSolanaTransaction rounds env (Conn c) encoded timeout w) \<noteq> None"
proof -
  have loop: "value_of (confirmation_loop rounds env (Conn c) sg (Date_now env w2) timeout
                          ''processed'' w2) \<noteq> None" for sg w2
    using loop_terminates[OF assms(1), of "Date_now env w2" timeout w2 rounds sg "''processed''"]
      assms(2) by simp
  have m: "value_of (case x of (r, w1, rest) \<Rightarrow> (map_option Inr r, w1, f w1 rest)) \<noteq> None"
    if "value_of x \<noteq> None" for x :: "(receipt option, 'a) step" and f
    using that by (cases x) auto
  show ?thesis
    unfolding helper_unfold
    by (simp add: m[OF loop] split: sum.split option.split prod.split del: not_None_eq)
qed

text \<open>
  Claim C4, as the code has it. When the helper returns a receipt, its log starts with the
  broadcast, whose answer is the receipt's signature, and the reading of the start time.
  Every status poll is asked right after a reading of the clock that was within the
  bound; the bound is tested there only, so the answer may come in after the bound has
  elapsed. The receipt is confirmed exactly when one of these polls answered a status of
  confirmed or finalized with no execution error; when no poll reported an execution
  error, that is exactly when one of them answered a status of confirmed or finalized.
  The receipt's status is the last one a poll answered (processed when none did); a
  confirmed receipt has a status of confirmed or finalized, and a receipt that is not
  confirmed was returned after a reading of the clock past the bound. On a clock that
  moves, more rounds than the bound has milliseconds are enough for the helper to return.
\<close>

theorem settleSolanaTransaction_receipt:
  "(settleSolanaTransaction rounds env connection encoded timeout w = (Some (Inr r), w1, calls)
      \<longrightarrow> (\<exists>raw sg start rest.
             calls = SendRawTransaction raw (Inr sg) # DateNow start # rest \<and>
             receipt_signature r = Some (JStr sg) \<and>
             polls_in_time start timeout rest \<and>
             confirmed r = list_ex confirming (polled rest) \<and>
             (\<not> list_ex reports_error (polled rest) \<longrightarrow>
                confirmed r = list_ex answers_terminal (polled rest)) \<and>
             receipt_status r = foldl observe ''processed'' (polled rest) \<and>
             (confirmed r \<longrightarrow> terminal (receipt_status r)) \<and>
             (\<not> confirmed r \<longrightarrow> timed_out start timeout rest)))
   \<and> (ticking env c \<and> nat timeout < rounds \<longrightarrow>
        value_of (settleSolanaTransaction rounds env (Conn c) encoded timeout w) \<noteq> None)"
proof -
  have 1: "settleSolanaTransaction rounds env connection encoded timeout w
             = (Some (Inr r), w1, calls)
      \<longrightarrow> (\<exists>raw sg start rest.
             calls = SendRawTransaction raw (Inr sg) # DateNow start # rest \<and>
             receipt_signature r = Some (JStr sg) \<and>
             polls_in_time start timeout rest \<and>
             confirmed r = list_ex confirming (polled rest) \<and>
             (\<not> list_ex reports_error (polled rest) \<longrightarrow>
                confirmed r = list_ex answers_terminal (polled rest)) \<and>
             receipt_status r = foldl observe ''processed'' (polled rest) \<and>
             (confirmed r \<longrightarrow> terminal (receipt_status r)) \<and>
             (\<not> confirmed r \<longrightarrow> timed_out start timeout rest))"
  proof
    assume "settleSolanaTransaction rounds env connection encoded timeout w
              = (Some (Inr r), w1, calls)"
    then obtain c' tx raw sg w2 rest where
      calls: "calls = SendRawTransaction raw (Inr sg) # DateNow (Date_now env w2) # rest"
      and loop: "confirmation_loop rounds env (Conn c') sg (Date_now env w2) timeout
                   ''processed'' w2 = (Some r, w1, rest)"
      by (rule helper_returns)
    from loop_post_holds[OF loop]
    have p: "receipt_signature r = Some (JStr sg) \<and>
             polls_in_time (Date_now env w2) timeout rest \<and>
             confirmed r = list_ex confirming (polled rest) \<and>
             receipt_status r = foldl observe ''processed'' (polled rest) \<and>
             (confirmed r \<longrightarrow> terminal (receipt_status r)) \<and>
             (\<not> confirmed r \<longrightarrow> timed_out (Date_now env w2) timeout rest)"
      by (auto simp: loop_post_def)
    then have "\<not> list_ex reports_error (polled rest) \<longrightarrow>
                confirmed r = list_ex answers_terminal (polled rest)"
      using confirming_without_error[of "polled rest"] by blast
    with p calls show "\<exists>raw sg start rest.
             calls = SendRawTransaction raw (Inr sg) # DateNow start # rest \<and>
             receipt_signature r = Some (JStr sg) \<and>
             polls_in_time start timeout rest \<and>
             confirmed r = list_ex confirming (polled rest) \<and>
             (\<not> list_ex reports_error (polled rest) \<longrightarrow>
                confirmed r = list_ex answers_terminal (polled rest)) \<and>
             receipt_status r = foldl observe ''processed'' (polled rest) \<and>
             (confirmed r \<longrightarrow> terminal (receipt_status r)) \<and>
             (\<not> confirmed r \<longrightarrow> timed_out start timeout rest)"
      by blast
  qed
  have 2: "ticking env c \<and> nat timeout < rounds \<longrightarrow>
        value_of (settleSolanaTransaction rounds env (Conn c) encoded timeout w) \<noteq> None"
    using helper_terminates[of env c timeout rounds encoded w] by blast
  from 1 2 show ?thesis by blast
qed

lemma test_ticking: "ticking (test_env (test_connection sim look st)) (test_connection sim look st)"
  by (simp add: ticking_def test_env_fields test_connection_fields)

theorem settleSolanaTransaction_receipt_witness:
  "ticking (test_env landing_connection) landing_connection
   \<and> value_of (settleSolanaTransaction 30001 (test_env landing_connection)
                 (Conn landing_connection) (Some (JStr ''dHg='')) 30000 0) \<noteq> None
   \<and> (\<exists>raw sg start rest.
         [SendRawTransaction ''raw'' (Inr ''SIG1''), DateNow 50,
          DateNow 50, GetSignatureStatus ''SIG1'' (Inr (Some finalized_status)),
          GetTransaction (Some (JStr ''SIG1''))]
           = SendRawTransaction raw (Inr sg) # DateNow start # rest \<and>
         Some (JStr ''SIG1'') = Some (JStr sg) \<and>
         polls_in_time start 30000 rest \<and>
         list_ex confirming (polled rest) \<and>
         \<not> list_ex reports_error (polled rest) \<and>
         list_ex answers_terminal (polled rest) \<and>
         ''finalized'' = foldl observe ''processed'' (polled rest))"
proof -
  have t: "ticking (test_env landing_connection) landing_connection"
    unfolding landing_connection_def by (rule test_ticking)
  have n: "nat 30000 < (30001::nat)" by simp
  note thm1 = settleSolanaTransaction_receipt
      [where rounds = 1 and env = "test_env landing_connection"
         and connection = "Conn landing_connection" and encoded = "Some (JStr ''dHg='')"
         and timeout = 30000 and w = 0, THEN conjunct1, rule_format, OF run_landing]
  note thm2 = settleSolanaTransaction_receipt
      [where rounds = 30001 and env = "test_env landing_connection" and c = landing_connection
         and encoded = "Some (JStr ''dHg='')" and timeout = 30000 and w = 0,
       THEN conjunct2, rule_format, OF conjI[OF t n]]
  from thm1 have "\<exists>raw sg start rest.
         [SendRawTransaction ''raw'' (Inr ''SIG1''), DateNow 50,
          DateNow 50, GetSignatureStatus ''SIG1'' (Inr (Some finalized_status)),
          GetTransaction (Some (JStr ''SIG1''))]
           = SendRawTransaction raw (Inr sg) # DateNow start # rest \<and>
         Some (JStr ''SIG1'') = Some (JStr sg) \<and>
         polls_in_time start 30000 rest \<and>
         list_ex confirming (polled rest) \<and>
         \<not> list_ex reports_error (polled rest) \<and>
         list_ex answers_terminal (polled rest) \<and>
         ''finalized'' = foldl observe ''processed'' (polled rest)"
    by (auto simp: finalized_status_def)
  with t thm2 show ?thesis by blast
qed

text \<open>
  The claim as worded, by the time the status is observed, fails: behind a slow line the
  one poll is asked at 50 ms, within the bound of 30 s that started at 50 ms, and its
  answer, finalized, is in hand at 34050 ms, when the bound has elapsed; the receipt is
  confirmed.
\<close>

theorem settleSolanaTransaction_late_answer_counterexample:
  "settleSolanaTransaction 1 (test_env slow_connection) (Conn slow_connection)
     (Some (JStr ''dHg='')) 30000 0
   = (Some (Inr \<lparr> receipt_signature = Some (JStr ''SIG1''), confirmed = True,
                    receipt_status = ''finalized'', receipt_slot = Some 7,
                    receipt_blockTime = Some 1700000000, fees = Some 5000 \<rparr>), 34050,
      [SendRawTransaction ''raw'' (Inr ''SIG1''), DateNow 50,
       DateNow 50, GetSignatureStatus ''SIG1'' (Inr (Some finalized_status)),
       GetTransaction (Some (JStr ''SIG1''))])
   \<and> getSignatureStatus slow_connection ''SIG1'' 50 = (Inr (Some finalized_status), 34050)
   \<and> \<not> observed_in_time (test_env slow_connection) 50 30000 34050"
proof -
  have "getSignatureStatus slow_connection ''SIG1'' 50 = (Inr (Some finalized_status), 34050)"
    by (simp add: slow_connection_def)
  moreover have "\<not> observed_in_time (test_env slow_connection) 50 30000 34050"
    by (simp add: observed_in_time_def test_env_fields)
  ultimately show ?thesis
    using run_slow by blast
qed

lemma settle_try_broadcast:
  assumes "extractTransactionData (Some pp) = Inr d" and "format d \<noteq> authorization_only"
    and "lookup_connection env (property pp ''network'') = Inr (Some connection)"
  shows "settle_try rounds env (Some pp) =
           await (broadcast_and_confirm rounds env connection (encoded_transaction d)
                    (timeout_subject d))
             (\<lambda>r. case r of
                None \<Rightarrow> yield None
              | Some (Inl e) \<Rightarrow> yield (Some (Inl e))
              | Some (Inr result) \<Rightarrow>
                  yield (Some (settled env d (Some pp) (property pp ''network'') result)))"
proof -
  from assms(1) obtain kvs where pp: "pp = JObj kvs"
    using extract_Inr_object by blast
  show ?thesis
  proof (cases "format d = facilitator_sponsored")
    case True
    with assms show ?thesis
      unfolding pp
      by (simp add: settle_try_def encoded_transaction_def timeout_subject_def
          cong: option.case_cong sum.case_cong)
  next
    case False
    with assms(2) have "format d = minimal \<or> format d = full"
      by (cases "format d") simp_all
    from extract_transaction_truthy[OF assms(1) this] False assms show ?thesis
      unfolding pp
      by (simp add: settle_try_def encoded_transaction_def timeout_subject_def
          cong: option.case_cong sum.case_cong)
  qed
qed

lemma await_step: "m w = (r, w1, c1) \<Longrightarrow> await m f w = after c1 (f r w1)"
  by (simp add: await_def)

lemma settle_unconfirmed:
  assumes "property body ''paymentPayload'' = Some pp"
    and "extractTransactionData (Some pp) = Inr d" and "format d \<noteq> authorization_only"
    and "lookup_connection env (property pp ''network'') = Inr (Some connection)"
    and "settleSolanaTransaction rounds env connection (encoded_transaction d) 30000 w
           = (Some (Inr r), w1, calls)"
    and "\<not> confirmed r"
  shows "settle rounds env body w =
           (Some (Reply 400 (SettleFailed
              (''Settlement failed: '' @ timeout_subject d @
               '' not confirmed within timeout. Status: '' @ receipt_status r)
              (property pp ''network''))), w1, calls)"
proof -
  from assms(2) obtain kvs where pp: "pp = JObj kvs"
    using extract_Inr_object by blast
  have np: "get_prop (Some pp) ''network'' = Inr (property pp ''network'')"
    by (simp add: pp)
  have b: "broadcast_and_confirm rounds env connection (encoded_transaction d)
             (timeout_subject d) w
           = (Some (Inl (Error (timeout_subject d @
                '' not confirmed within timeout. Status: '' @ receipt_status r))), w1, calls)"
    using assms(6)
    by (simp add: broadcast_and_confirm_def yield_def
        await_step[where m = "settleSolanaTransaction rounds env connection
                                (encoded_transaction d) 30000", OF assms(5)])
  show ?thesis
    by (simp add: settle_def assms(1) settle_try_broadcast[OF assms(2,3,4)] await_assoc np
        yield_def
        await_step[where m = "broadcast_and_confirm rounds env connection
                                (encoded_transaction d) (timeout_subject d)", OF b])
qed

lemma helper_signature:
  assumes "settleSolanaTransaction rounds env connection encoded timeout w
             = (Some (Inr r), w1, calls)"
  shows "\<exists>raw sg rest. calls = SendRawTransaction raw (Inr sg) # rest \<and>
            receipt_signature r = Some (JStr sg)"
  using assms
proof (rule helper_returns)
  fix c tx raw sg w2 rest
  assume c: "calls = SendRawTransaction raw (Inr sg) # DateNow (Date_now env w2) # rest"
    and l: "confirmation_loop rounds env (Conn c) sg (Date_now env w2) timeout
              ''processed'' w2 = (Some r, w1, rest)"
  from loop_post_holds[OF l] have "receipt_signature r = Some (JStr sg)"
    by (simp add: loop_post_def)
  with c show ?thesis by blast
qed

text \<open>
  Claim C5, as the code has it. When \<^verbatim>\<open>/settle\<close> has broadcast a transaction and the
  helper returns a receipt that is not confirmed, the receipt holds the signature the
  broadcast answered, but the response is the failure body: status 400, an
  \<^verbatim>\<open>errorReason\<close> that names the timeout and the last status, and \<^verbatim>\<open>transaction: null\<close>.
\<close>

theorem settle_unconfirmed_reports_status_only:
  assumes "property body ''paymentPayload'' = Some pp"
    and "extractTransactionData (Some pp) = Inr d" and "format d \<noteq> authorization_only"
    and "lookup_connection env (property pp ''network'') = Inr (Some connection)"
    and "settleSolanaTransaction rounds env connection (encoded_transaction d) 30000 w
           = (Some (Inr r), w1, calls)"
    and "\<not> confirmed r"
  shows "settle rounds env body w =
           (Some (Reply 400 (SettleFailed
              (''Settlement failed: '' @ timeout_subject d @
               '' not confirmed within timeout. Status: '' @ receipt_status r)
              (property pp ''network''))), w1, calls)
       \<and> body_transaction (SettleFailed
              (''Settlement failed: '' @ timeout_subject d @
               '' not confirmed within timeout. Status: '' @ receipt_status r)
              (property pp ''network'')) = Some JNull
       \<and> (\<exists>raw sg rest. calls = SendRawTransaction raw (Inr sg) # rest \<and>
            receipt_signature r = Some (JStr sg))"
  using settle_unconfirmed[OF assms] helper_signature[OF assms(5)] by simp

lemma test_sponsored:
  "extractTransactionData
     (Some (JObj [(''network'', JStr ''solana-devnet''), (''payload'', sponsored_payload)]))
     = Inr sponsored_data"
  "format sponsored_data \<noteq> authorization_only"
  "encoded_transaction sponsored_data = Some (JStr ''dHg='')"
  "timeout_subject sponsored_data = ''Facilitator-sponsored transaction''"
  by (simp_all add: extractTransactionData_def sponsored_payload_def sponsored_data_def
      no_data_def encoded_transaction_def timeout_subject_def)

lemma test_network:
  "property (JObj [(''network'', JStr ''solana-devnet''), (''payload'', payload)]) ''network''
     = Some (JStr ''solana-devnet'')"
  by simp

theorem settle_unconfirmed_reports_status_only_witness:
  "settle 4 (test_env stuck_connection) (test_body sponsored_payload) 0 =
     (Some (Reply 400 (SettleFailed
        ''Settlement failed: Facilitator-sponsored transaction not confirmed within timeout. Status: processed''
        (Some (JStr ''solana-devnet'')))), 36050,
      [SendRawTransaction ''raw'' (Inr ''SIG1''), DateNow 50,
       DateNow 50, GetSignatureStatus ''SIG1'' (Inr (Some processed_status)),
       DateNow 12050, GetSignatureStatus ''SIG1'' (Inr (Some processed_status)),
       DateNow 24050, GetSignatureStatus ''SIG1'' (Inr (Some processed_status)),
       DateNow 36050])"
proof -
  have l: "lookup_connection (test_env stuck_connection)
             (property (JObj [(''network'', JStr ''solana-devnet''),
                              (''payload'', sponsored_payload)]) ''network'')
           = Inr (Some (Conn stuck_connection))"
    by (simp add: test_lookup)
  have run: "settleSolanaTransaction 4 (test_env stuck_connection) (Conn stuck_connection)
     (encoded_transaction sponsored_data) 30000 0
   = (Some (Inr \<lparr> receipt_signature = Some (JStr ''SIG1''), confirmed = False,
                    receipt_status = ''processed'', receipt_slot = None,
                    receipt_blockTime = None, fees = None \<rparr>), 36050,
      [SendRawTransaction ''raw'' (Inr ''SIG1''), DateNow 50,
       DateNow 50, GetSignatureStatus ''SIG1'' (Inr (Some processed_status)),
       DateNow 12050, GetSignatureStatus ''SIG1'' (Inr (Some processed_status)),
       DateNow 24050, GetSignatureStatus ''SIG1'' (Inr (Some processed_status)),
       DateNow 36050])"
    by (simp only: test_sponsored run_stuck)
  have nc: "\<not> confirmed \<lparr> receipt_signature = Some (JStr ''SIG1''), confirmed = False,
                    receipt_status = ''processed'', receipt_slot = None,
                    receipt_blockTime = None, fees = None \<rparr>"
    by simp
  from settle_unconfirmed_reports_status_only
         [OF test_gates(1) test_sponsored(1,2) l run nc, THEN conjunct1]
  show ?thesis by (simp add: test_sponsored)
qed

text \<open>
  The claim as worded fails: the broadcast answered the signature \<open>SIG1\<close>, the status
  stayed processed past the bound, and the response carries \<^verbatim>\<open>transaction: null\<close> and a
  reason that names the status only.
\<close>

theorem settle_signature_not_reported_counterexample:
  "settle 4 (test_env stuck_connection) (test_body minimal_payload) 0 =
     (Some (Reply 400 (SettleFailed
        ''Settlement failed: Transaction not confirmed within timeout. Status: processed''
        (Some (JStr ''solana-devnet'')))), 36050,
      [SendRawTransaction ''raw'' (Inr ''SIG1''), DateNow 50,
       DateNow 50, GetSignatureStatus ''SIG1'' (Inr (Some processed_status)),
       DateNow 12050, GetSignatureStatus ''SIG1'' (Inr (Some processed_status)),
       DateNow 24050, GetSignatureStatus ''SIG1'' (Inr (Some processed_status)),
       DateNow 36050])
   \<and> body_transaction (SettleFailed
        ''Settlement failed: Transaction not confirmed within timeout. Status: processed''
        (Some (JStr ''solana-devnet''))) \<noteq> Some (JStr ''SIG1'')"
proof -
  have e: "extractTransactionData
     (Some (JObj [(''network'', JStr ''solana-devnet''), (''payload'', minimal_payload)]))
     = Inr minimal_data" "format minimal_data \<noteq> authorization_only"
    "encoded_transaction minimal_data = Some (JStr ''dHg='')"
    "timeout_subject minimal_data = ''Transaction''"
    by (simp_all add: test_minimal minimal_data_def encoded_transaction_def no_data_def
        timeout_subject_def)
  have l: "lookup_connection (test_env stuck_connection)
             (property (JObj [(''network'', JStr ''solana-devnet''),
                              (''payload'', minimal_payload)]) ''network'')
           = Inr (Some (Conn stuck_connection))"
    by (simp add: test_lookup)
  have run: "settleSolanaTransaction 4 (test_env stuck_connection) (Conn stuck_connection)
     (encoded_transaction minimal_data) 30000 0
   = (Some (Inr \<lparr> receipt_signature = Some (JStr ''SIG1''), confirmed = False,
                    receipt_status = ''processed'', receipt_slot = None,
                    receipt_blockTime = None, fees = None \<rparr>), 36050,
      [SendRawTransaction ''raw'' (Inr ''SIG1''), DateNow 50,
       DateNow 50, GetSignatureStatus ''SIG1'' (Inr (Some processed_status)),
       DateNow 12050, GetSignatureStatus ''SIG1'' (Inr (Some processed_status)),
       DateNow 24050, GetSignatureStatus ''SIG1'' (Inr (Some processed_status)),
       DateNow 36050])"
    by (simp only: e run_stuck)
  have nc: "\<not> confirmed \<lparr> receipt_signature = Some (JStr ''SIG1''), confirmed = False,
                    receipt_status = ''processed'', receipt_slot = None,
                    receipt_blockTime = None, fees = None \<rparr>"
    by simp
  from settle_unconfirmed[OF test_gates(1) e(1,2) l run nc]
  show ?thesis by (simp add: e)
qed

section \<open>Properties of the sponsored transaction builder\<close>



















end
